theory Spec2Isabelle
  imports Main
begin

section \<open>Checkpoint input/output of megatron/checkpointing.py\<close>

text \<open>
  The development embeds \<^verbatim>\<open>src/megatron/checkpointing.py\<close>: checkpoint naming,
  retention of old checkpoints, the forward-pass validator, the writer and the loader.
  Python exceptions are values of \<open>exn\<close>; a function that can raise returns
  \<open>exn + 'a\<close> (\<open>Inl\<close> is the raised exception). Everything the process mutates (the
  model's train/eval flag, the lines it prints, the random number generators, the
  directories it removes, what it hands to the engine) is a field of \<open>world\<close>, passed in
  and returned. What the file calls but does not define (torch, the distributed engine,
  glob, shutil, the model) is a field of \<open>env\<close>.
\<close>

subsection \<open>Exceptions and dynamically typed values\<close>

datatype exn =
    ValueError string
  | AssertionError string
  | AttributeError string
  | KeyError string
  | FileNotFoundError string
  | OSError string
  | RuntimeError string
  | SystemExit

text \<open>The values a configuration field or an iteration marker can hold.\<close>

datatype scalar = SNone | SBool bool | SInt int | SStr string

text \<open>Python truthiness, as \<^verbatim>\<open>a or b\<close> tests it: \<^verbatim>\<open>None\<close>, \<^verbatim>\<open>False\<close>, \<^verbatim>\<open>0\<close> and the empty
  string are false.\<close>

fun truthy :: "scalar \<Rightarrow> bool" where
  "truthy SNone = False"
| "truthy (SBool b) = b"
| "truthy (SInt i) = (i \<noteq> 0)"
| "truthy (SStr s) = (s \<noteq> [])"

definition py_or :: "scalar \<Rightarrow> scalar \<Rightarrow> scalar" where
  "py_or a b = (if truthy a then a else b)"

text \<open>\<^verbatim>\<open>d.get(k)\<close>: the value, or \<^verbatim>\<open>None\<close> when the key is absent.\<close>

definition dict_get :: "scalar option \<Rightarrow> scalar" where
  "dict_get field = (case field of None \<Rightarrow> SNone | Some v \<Rightarrow> v)"

text \<open>Python \<^verbatim>\<open>==\<close> on these values: \<^verbatim>\<open>bool\<close> is a subtype of \<^verbatim>\<open>int\<close>, so \<^verbatim>\<open>True == 1\<close>.\<close>

fun py_eq :: "scalar \<Rightarrow> scalar \<Rightarrow> bool" where
  "py_eq SNone SNone = True"
| "py_eq (SBool a) (SBool b) = (a = b)"
| "py_eq (SInt a) (SInt b) = (a = b)"
| "py_eq (SBool a) (SInt b) = ((if a then 1 else 0) = b)"
| "py_eq (SInt a) (SBool b) = (a = (if b then 1 else 0))"
| "py_eq (SStr a) (SStr b) = (a = b)"
| "py_eq _ _ = False"

subsection \<open>Decimal formatting\<close>

definition digit_char :: "nat \<Rightarrow> char" where
  "digit_char d = char_of (48 + d)"

definition is_digit :: "char \<Rightarrow> bool" where
  "is_digit c = (48 \<le> (of_char c :: nat) \<and> (of_char c :: nat) \<le> 57)"

function str_nat :: "nat \<Rightarrow> string" where
  "str_nat n = (if n < 10 then [digit_char n] else str_nat (n div 10) @ [digit_char (n mod 10)])"
  by pat_completeness auto
termination
  by (relation "measure id") auto

declare str_nat.simps [simp del]

text \<open>\<^verbatim>\<open>str(i)\<close> for an integer.\<close>

definition str_int :: "int \<Rightarrow> string" where
  "str_int i = (if i < 0 then CHR ''-'' # str_nat (nat (- i)) else str_nat (nat i))"

definition zero_pad :: "nat \<Rightarrow> string \<Rightarrow> string" where
  "zero_pad w s = replicate (w - length s) (CHR ''0'') @ s"

text \<open>\<^verbatim>\<open>'{:0wd}'.format(i)\<close>: sign-aware zero padding to a minimum width \<open>w\<close>; a
  longer number is not truncated.\<close>

definition format_0d :: "nat \<Rightarrow> int \<Rightarrow> string" where
  "format_0d w i =
     (if i < 0 then CHR ''-'' # zero_pad (w - 1) (str_nat (nat (- i)))
      else zero_pad w (str_nat (nat i)))"

text \<open>\<^verbatim>\<open>str(v)\<close>, as \<^verbatim>\<open>'{}'.format(v)\<close> prints a value.\<close>

fun py_str :: "scalar \<Rightarrow> string" where
  "py_str SNone = ''None''"
| "py_str (SBool b) = (if b then ''True'' else ''False'')"
| "py_str (SInt i) = str_int i"
| "py_str (SStr s) = s"

text \<open>\<^verbatim>\<open>sep.join(xs)\<close>.\<close>

fun str_join :: "string \<Rightarrow> string list \<Rightarrow> string" where
  "str_join sep [] = []"
| "str_join sep [x] = x"
| "str_join sep (x # y # ys) = x @ sep @ str_join sep (y # ys)"

subsection \<open>Paths\<close>

definition startswith_sep :: "string \<Rightarrow> bool" where
  "startswith_sep b = (case b of [] \<Rightarrow> False | c # _ \<Rightarrow> c = CHR ''/'')"

definition endswith_sep :: "string \<Rightarrow> bool" where
  "endswith_sep a = (a \<noteq> [] \<and> last a = CHR ''/'')"

text \<open>One round of the loop of \<^verbatim>\<open>posixpath.join\<close>: an absolute component restarts the
  path; a separator is added unless the path is empty or already ends with one.\<close>

definition join_step :: "string \<Rightarrow> string \<Rightarrow> string" where
  "join_step path b =
     (if startswith_sep b then b
      else if path = [] \<or> endswith_sep path then path @ b
      else path @ ''/'' @ b)"

definition os_path_join :: "string \<Rightarrow> string list \<Rightarrow> string" where
  "os_path_join a ps = foldl join_step a ps"

text \<open>\<^verbatim>\<open>s.strip('/')\<close> removes the slashes at both ends.\<close>

definition strip_sep :: "string \<Rightarrow> string" where
  "strip_sep s =
     rev (dropWhile (\<lambda>c. c = CHR ''/'') (rev (dropWhile (\<lambda>c. c = CHR ''/'') s)))"

subsection \<open>Checkpoint naming\<close>

text \<open>\<open>model_parallel_rank\<close> is what \<^verbatim>\<open>mpu.get_model_parallel_rank()\<close> returns on the
  calling process; it is read only when \<open>mp_rank\<close> is \<^verbatim>\<open>None\<close>.\<close>

definition get_checkpoint_name ::
  "int \<Rightarrow> string \<Rightarrow> int \<Rightarrow> bool \<Rightarrow> int option \<Rightarrow> string" where
  "get_checkpoint_name model_parallel_rank checkpoints_path iteration release mp_rank =
     (let directory = (if release then ''release'' else ''iter_'' @ format_0d 7 iteration)
      in os_path_join checkpoints_path
           [directory,
            ''mp_rank_'' @ format_0d 2
               (case mp_rank of None \<Rightarrow> model_parallel_rank | Some r \<Rightarrow> r),
            ''model_optim_rng.pt''])"

subsection \<open>The regular expression of the retention policy\<close>

text \<open>
  \<^verbatim>\<open>re.search(r'global_step[\d]*', i)\<close>. A pattern is a sequence of literal characters
  and greedy digit runs; \<open>match_here\<close> matches it at the start of a string and returns
  the length of the match, \<open>re_search\<close> tries every start position from the left and
  returns the first match as (start, length), \<^verbatim>\<open>None\<close> when there is none.
  The class \<^verbatim>\<open>\d\<close> is read as the ASCII digits; whether a match exists does not depend on
  which characters count as digits, only its length does.
\<close>

datatype re_atom = Lit char | DigitStar

fun match_here :: "re_atom list \<Rightarrow> string \<Rightarrow> nat option" where
  "match_here [] s = Some 0"
| "match_here (Lit c # ps) [] = None"
| "match_here (Lit c # ps) (x # xs) =
     (if x = c then map_option Suc (match_here ps xs) else None)"
| "match_here (DigitStar # ps) [] = match_here ps []"
| "match_here (DigitStar # ps) (x # xs) =
     (if is_digit x
      then (case match_here (DigitStar # ps) xs of
              Some n \<Rightarrow> Some (Suc n)
            | None \<Rightarrow> match_here ps (x # xs))
      else match_here ps (x # xs))"

fun re_search :: "re_atom list \<Rightarrow> string \<Rightarrow> (nat \<times> nat) option" where
  "re_search p [] = map_option (Pair 0) (match_here p [])"
| "re_search p (x # xs) =
     (case match_here p (x # xs) of
        Some n \<Rightarrow> Some (0, n)
      | None \<Rightarrow> map_option (\<lambda>(i, n). (Suc i, n)) (re_search p xs))"

definition ckpt_dir_regex :: "re_atom list" where
  "ckpt_dir_regex = map Lit ''global_step'' @ [DigitStar]"


subsection \<open>Natural sort\<close>

definition digit_val :: "char \<Rightarrow> nat" where
  "digit_val c = of_char c - 48"

definition val_digits :: "string \<Rightarrow> nat" where
  "val_digits s = foldl (\<lambda>a c. 10 * a + digit_val c) 0 s"

definition int_of_digits :: "string \<Rightarrow> int" where
  "int_of_digits s = foldl (\<lambda>a c. 10 * a + int (digit_val c)) 0 s"

text \<open>A name is cut into maximal runs of digits and of other characters; the flag says
  which kind a run is.\<close>

fun chunks :: "string \<Rightarrow> (bool \<times> string) list" where
  "chunks [] = []"
| "chunks (c # cs) =
     (case chunks cs of
        [] \<Rightarrow> [(is_digit c, [c])]
      | (d, s) # rest \<Rightarrow>
          if d = is_digit c then (d, c # s) # rest
          else (is_digit c, [c]) # (d, s) # rest)"

fun str_less :: "string \<Rightarrow> string \<Rightarrow> bool" where
  "str_less [] [] = False"
| "str_less [] (y # ys) = True"
| "str_less (x # xs) [] = False"
| "str_less (x # xs) (y # ys) =
     ((of_char x :: nat) < of_char y \<or> (x = y \<and> str_less xs ys))"

fun chunk_less :: "bool \<times> string \<Rightarrow> bool \<times> string \<Rightarrow> bool" where
  "chunk_less (True, a) (True, b) = (int_of_digits a < int_of_digits b)"
| "chunk_less (False, a) (False, b) = str_less a b"
| "chunk_less (True, a) (False, b) = True"
| "chunk_less (False, a) (True, b) = False"

fun key_less :: "(bool \<times> string) list \<Rightarrow> (bool \<times> string) list \<Rightarrow> bool" where
  "key_less [] [] = False"
| "key_less [] (b # bs) = True"
| "key_less (a # as) [] = False"
| "key_less (a # as) (b # bs) =
     (chunk_less a b \<or> (\<not> chunk_less b a \<and> key_less as bs))"

fun natural_insert :: "string \<Rightarrow> string list \<Rightarrow> string list" where
  "natural_insert x [] = [x]"
| "natural_insert x (y # ys) =
     (if key_less (chunks x) (chunks y) then x # y # ys else y # natural_insert x ys)"

text \<open>
  Modelled from the spec: \<^verbatim>\<open>natural_sort\<close> of \<^verbatim>\<open>megatron/utils.py\<close> is imported by
  the checkpointing module and is not among the source files. The spec describes it as
  the natural, numeric-aware order in which \<^verbatim>\<open>step_10\<close> sorts after \<^verbatim>\<open>step_9\<close>: runs of
  digits compare as numbers, everything else character by character. The sort is
  stable. The retention code takes its sort from \<open>env\<close>; this model is the one the
  concrete examples run.
\<close>

definition natural_sort_model :: "string list \<Rightarrow> string list" where
  "natural_sort_model xs = foldl (\<lambda>acc x. natural_insert x acc) [] xs"

subsection \<open>Run configuration, checkpoint record, process state, collaborators\<close>

text \<open>The fields of \<^verbatim>\<open>neox_args\<close> that the module reads. \<open>other_attributes\<close> stands for
  every attribute of the configuration object that has no field here.\<close>

record neox_args =
  deepspeed :: bool
  finetune :: bool
  no_load_optim :: bool
  no_load_rng :: bool
  no_save_rng :: bool
  checkpoint_validation_with_forward_pass :: bool
  keep_last_n_checkpoints :: "int option"
  save :: string
  load :: string
  is_pipe_parallel :: bool
  seq_length :: int
  num_layers :: int
  hidden_size :: int
  num_attention_heads :: int
  max_position_embeddings :: int
  make_vocab_size_divisible_by :: int
  padded_vocab_size :: int
  tokenizer_type :: string
  model_parallel_size :: int
  other_attributes :: "string \<Rightarrow> scalar option"

text \<open>\<^verbatim>\<open>getattr(neox_args, name)\<close>: \<^verbatim>\<open>None\<close> here is Python's AttributeError.\<close>

definition getattr :: "neox_args \<Rightarrow> string \<Rightarrow> scalar option" where
  "getattr a name =
     (if name = ''num_layers'' then Some (SInt (num_layers a))
      else if name = ''hidden_size'' then Some (SInt (hidden_size a))
      else if name = ''num_attention_heads'' then Some (SInt (num_attention_heads a))
      else if name = ''max_position_embeddings'' then Some (SInt (max_position_embeddings a))
      else if name = ''make_vocab_size_divisible_by''
        then Some (SInt (make_vocab_size_divisible_by a))
      else if name = ''padded_vocab_size'' then Some (SInt (padded_vocab_size a))
      else if name = ''tokenizer_type'' then Some (SStr (tokenizer_type a))
      else if name = ''model_parallel_size'' then Some (SInt (model_parallel_size a))
      else if name = ''deepspeed'' then Some (SBool (deepspeed a))
      else if name = ''finetune'' then Some (SBool (finetune a))
      else if name = ''no_load_optim'' then Some (SBool (no_load_optim a))
      else if name = ''no_load_rng'' then Some (SBool (no_load_rng a))
      else if name = ''no_save_rng'' then Some (SBool (no_save_rng a))
      else if name = ''checkpoint_validation_with_forward_pass''
        then Some (SBool (checkpoint_validation_with_forward_pass a))
      else if name = ''keep_last_n_checkpoints''
        then Some (case keep_last_n_checkpoints a of None \<Rightarrow> SNone | Some n \<Rightarrow> SInt n)
      else if name = ''save'' then Some (SStr (save a))
      else if name = ''load'' then Some (SStr (load a))
      else if name = ''is_pipe_parallel'' then Some (SBool (is_pipe_parallel a))
      else if name = ''seq_length'' then Some (SInt (seq_length a))
      else other_attributes a name)"

text \<open>What the key \<^verbatim>\<open>'args'\<close> of a record holds: a dict (its items in order), or
  something that is not a dict.\<close>

datatype args_value = ArgsDict "(string \<times> scalar) list" | NotADict scalar

type_synonym rng_state = nat

text \<open>
  The client state of a checkpoint, a Python dict with string keys. Each field is one
  key the module reads or writes; \<^verbatim>\<open>None\<close> says that the key is absent. \<open>'t\<close> is the type
  of tensors. The validation payload is the pair of \<^verbatim>\<open>context_tokens\<close> and \<^verbatim>\<open>logits\<close>,
  the latter \<^verbatim>\<open>None\<close> when the saving rank held no logits.
\<close>

record 't state_dict =
  sd_iteration :: "scalar option"
  sd_total_iters :: "scalar option"
  sd_args :: "args_value option"
  sd_checkpoint_validation :: "('t \<times> 't option) option"
  sd_random_rng_state :: "rng_state option"
  sd_np_rng_state :: "rng_state option"
  sd_torch_rng_state :: "rng_state option"
  sd_cuda_rng_state :: "rng_state option"
  sd_rng_tracker_states :: "rng_state option"

text \<open>What this process mutates.\<close>

record 't world =
  training :: bool
  printed :: "string list"
  barriers :: nat
  random_rng :: rng_state
  np_rng :: rng_state
  torch_rng :: rng_state
  cuda_rng :: rng_state
  rng_tracker :: rng_state
  rmtree_calls :: "string list"
  removed :: "string list"
  saved :: "(string \<times> 't state_dict) list"

text \<open>
  The collaborators: the ranks of this process, the file system calls, the sort, the
  tensor library, the model and the engine. \<open>rmtree\<close> gives the exception that removing
  a path raises, \<^verbatim>\<open>None\<close> when the removal succeeds. \<open>randint\<close> is
  \<^verbatim>\<open>torch.randint(0, high, (rows, cols))\<close> as a function of the state of the global torch
  generator: the tensor drawn and the state afterwards. \<open>engine_load_checkpoint\<close> is
  \<^verbatim>\<open>model.load_checkpoint\<close>: the checkpoint's name (\<^verbatim>\<open>None\<close> when none is found) and
  its client state.
\<close>

record 't env =
  rank :: int
  data_parallel_rank :: int
  glob :: "string \<Rightarrow> string list"
  isdir :: "string \<Rightarrow> bool"
  rmtree :: "string \<Rightarrow> exn option"
  natural_sort :: "string list \<Rightarrow> string list"
  randint :: "rng_state \<Rightarrow> int \<Rightarrow> int \<Rightarrow> int \<Rightarrow> 't \<times> rng_state"
  cuda_broadcast :: "'t \<Rightarrow> exn + 't"
  eval_batch :: "'t \<Rightarrow> exn + 't option"
  is_last_stage :: bool
  model_forward :: "'t \<Rightarrow> exn + 't"
  detach_cpu :: "'t \<Rightarrow> 't"
  tensor_equal_all :: "'t \<Rightarrow> 't \<Rightarrow> bool"
  tensor_isclose_all :: "'t \<Rightarrow> 't \<Rightarrow> bool"
  engine_load_checkpoint :: "string \<Rightarrow> bool \<Rightarrow> bool \<Rightarrow> string option \<times> 't state_dict"

definition print_line :: "string \<Rightarrow> 't world \<Rightarrow> 't world" where
  "print_line msg w = w\<lparr>printed := printed w @ [msg]\<rparr>"

text \<open>
  Modelled from the spec: \<^verbatim>\<open>print_rank_0\<close> of the \<^verbatim>\<open>megatron\<close> package is not among the
  source files. The spec says that non-fatal conditions are logged on rank 0 only.
\<close>

definition print_rank_0 :: "'t env \<Rightarrow> string \<Rightarrow> 't world \<Rightarrow> 't world" where
  "print_rank_0 e msg w = (if rank e = 0 then print_line msg w else w)"

text \<open>\<^verbatim>\<open>torch.distributed.barrier()\<close>.\<close>

definition barrier :: "'t world \<Rightarrow> 't world" where
  "barrier w = w\<lparr>barriers := Suc (barriers w)\<rparr>"


subsection \<open>check_checkpoint_args\<close>

definition error_message :: "string \<Rightarrow> scalar \<Rightarrow> scalar \<Rightarrow> string" where
  "error_message checkpoint_arg_name checkpoint_arg_value args_value =
     checkpoint_arg_name @ '' value from checkpoint ('' @ py_str checkpoint_arg_value @
     '') is not equal to the currently set argument value ('' @ py_str args_value @ '').''"

text \<open>The loop over \<^verbatim>\<open>checkpoint_args.items()\<close>: the first item that fails stops it.\<close>

fun check_items :: "neox_args \<Rightarrow> (string \<times> scalar) list \<Rightarrow> exn + unit" where
  "check_items a [] = Inr ()"
| "check_items a ((checkpoint_arg_name, checkpoint_arg_value) # rest) =
     (case getattr a checkpoint_arg_name of
        None \<Rightarrow> Inl (AttributeError checkpoint_arg_name)
      | Some args_value \<Rightarrow>
          if py_eq checkpoint_arg_value args_value then check_items a rest
          else Inl (AssertionError
                 (error_message checkpoint_arg_name checkpoint_arg_value args_value)))"

definition check_checkpoint_args :: "neox_args \<Rightarrow> args_value \<Rightarrow> exn + unit" where
  "check_checkpoint_args a checkpoint_args =
     (case checkpoint_args of
        NotADict _ \<Rightarrow> Inl (AssertionError ''args stored in checkpoint is a dict'')
      | ArgsDict items \<Rightarrow> check_items a items)"

subsection \<open>do_forward_pass and check_forward_pass\<close>

text \<open>The forward pass proper: \<^verbatim>\<open>model.eval_batch\<close> under pipeline parallelism (only
  the last stage detaches its logits), \<^verbatim>\<open>get_batch\<close> and the model call otherwise.\<close>

definition forward_logits :: "'t env \<Rightarrow> neox_args \<Rightarrow> 't \<Rightarrow> exn + 't option" where
  "forward_logits e a context_tokens_tensor =
     (if is_pipe_parallel a then
        (case eval_batch e context_tokens_tensor of
           Inl x \<Rightarrow> Inl x
         | Inr logits \<Rightarrow>
             if is_last_stage e then
               (case logits of
                  None \<Rightarrow> Inl (AttributeError ''detach'')
                | Some l \<Rightarrow> Inr (Some (detach_cpu e l)))
             else Inr logits)
      else
        (case model_forward e context_tokens_tensor of
           Inl x \<Rightarrow> Inl x
         | Inr l \<Rightarrow> Inr (Some (detach_cpu e l))))"

text \<open>Drawing the random probe advances the torch generator of the process.\<close>

definition torch_randint :: "'t env \<Rightarrow> int \<Rightarrow> int \<Rightarrow> int \<Rightarrow> 't world \<Rightarrow> 't \<times> 't world" where
  "torch_randint e high rows cols w =
     (fst (randint e (torch_rng w) high rows cols),
      w\<lparr>torch_rng := snd (randint e (torch_rng w) high rows cols)\<rparr>)"

definition do_forward_pass ::
  "'t env \<Rightarrow> neox_args \<Rightarrow> 't option \<Rightarrow> 't world \<Rightarrow> (exn + 't \<times> 't option) \<times> 't world" where
  "do_forward_pass e a context_tokens w0 =
     (let w1 = barrier w0;
          model_was_in_train = training w1;
          w1 = w1\<lparr>training := False\<rparr>;
          probe =
            (if is_pipe_parallel a then
               (case context_tokens of
                  None \<Rightarrow> torch_randint e (padded_vocab_size a) 4 (seq_length a + 1) w1
                | Some t \<Rightarrow> (t, w1))
             else
               (case context_tokens of
                  None \<Rightarrow> torch_randint e (padded_vocab_size a) 4 (seq_length a) w1
                | Some t \<Rightarrow> (t, w1)));
          context_tokens_tensor = fst probe;
          w2 = snd probe
      in case cuda_broadcast e context_tokens_tensor of
           Inl x \<Rightarrow> (Inl x, w2)
         | Inr context_tokens_tensor \<Rightarrow>
             let w3 = barrier w2 in
             (case forward_logits e a context_tokens_tensor of
                Inl x \<Rightarrow> (Inl x, w3)
              | Inr logits \<Rightarrow>
                  let w4 = barrier w3;
                      w5 = (if model_was_in_train then w4\<lparr>training := True\<rparr> else w4)
                  in (Inr (detach_cpu e context_tokens_tensor, logits), w5)))"

definition forward_warning :: string where
  "forward_warning = '' > WARNING: validate_checkpoint_forward() forward after load of checkpoint does not yield exactly same result''"

definition forward_assertion :: string where
  "forward_assertion = ''validate_checkpoint_forward() forward after load of checkpoint does not yield a close result''"

text \<open>\<^verbatim>\<open>logits == checkpoint_logits\<close> with saved logits \<^verbatim>\<open>None\<close> is the boolean
  \<^verbatim>\<open>False\<close>, which has no \<^verbatim>\<open>all\<close>.\<close>

definition check_forward_pass ::
  "'t env \<Rightarrow> neox_args \<Rightarrow> 't \<Rightarrow> 't option \<Rightarrow> 't world \<Rightarrow> (exn + unit) \<times> 't world" where
  "check_forward_pass e a checkpoint_context_tokens checkpoint_logits w =
     (case do_forward_pass e a (Some checkpoint_context_tokens) w of
        (Inl x, w1) \<Rightarrow> (Inl x, w1)
      | (Inr (_, logits), w1) \<Rightarrow>
          (case logits of
             None \<Rightarrow> (Inr (), w1)
           | Some l \<Rightarrow>
               (case checkpoint_logits of
                  None \<Rightarrow> (Inl (AttributeError ''all''), w1)
                | Some cl \<Rightarrow>
                    if \<not> tensor_equal_all e l cl then
                      (let w2 = (if data_parallel_rank e = 0
                                 then print_line forward_warning w1 else w1)
                       in if tensor_isclose_all e l cl then (Inr (), w2)
                          else (Inl (AssertionError forward_assertion), w2))
                    else (Inr (), w1))))"

subsection \<open>delete_old_checkpoints\<close>

text \<open>The loop over \<^verbatim>\<open>to_delete\<close>: \<^verbatim>\<open>shutil.rmtree\<close> in a \<^verbatim>\<open>try\<close> whose only handler is
  for FileNotFoundError.\<close>

fun remove_all :: "'t env \<Rightarrow> string list \<Rightarrow> 't world \<Rightarrow> (exn + unit) \<times> 't world" where
  "remove_all e [] w = (Inr (), w)"
| "remove_all e (ckpt # rest) w =
     (let w1 = w\<lparr>rmtree_calls := rmtree_calls w @ [ckpt]\<rparr> in
      case rmtree e ckpt of
        None \<Rightarrow> remove_all e rest (w1\<lparr>removed := removed w1 @ [ckpt]\<rparr>)
      | Some (FileNotFoundError m) \<Rightarrow> remove_all e rest w1
      | Some x \<Rightarrow> (Inl x, w1))"

text \<open>The condition of the list comprehension.\<close>

definition is_ckpt_dir :: "'t env \<Rightarrow> string \<Rightarrow> bool" where
  "is_ckpt_dir e i = (isdir e i \<and> re_search ckpt_dir_regex i \<noteq> None)"

definition all_ckpts :: "'t env \<Rightarrow> string \<Rightarrow> string list" where
  "all_ckpts e save_dir =
     (let save_dir = (if endswith_sep save_dir then strip_sep save_dir else save_dir)
      in natural_sort e (filter (is_ckpt_dir e) (glob e (save_dir @ ''/*''))))"

definition deleting_message :: "string list \<Rightarrow> string" where
  "deleting_message to_delete =
     ''WARNING: Deleting old checkpoints: '' @ [CHR 0x0A, CHR 0x09] @ str_join '', '' to_delete"

definition delete_old_checkpoints ::
  "'t env \<Rightarrow> string \<Rightarrow> int \<Rightarrow> 't world \<Rightarrow> (exn + unit) \<times> 't world" where
  "delete_old_checkpoints e save_dir n_to_keep w =
     (if rank e = 0 then
        (let n_to_delete = int (length (all_ckpts e save_dir)) - n_to_keep in
         if n_to_delete > 0 then
           (let to_delete = take (nat n_to_delete) (all_ckpts e save_dir)
            in remove_all e to_delete (print_line (deleting_message to_delete) w))
         else (Inr (), w))
      else (Inr (), w))"


subsection \<open>save_ds_checkpoint and save_checkpoint\<close>

definition checkpoint_args_of :: "neox_args \<Rightarrow> (string \<times> scalar) list" where
  "checkpoint_args_of a =
     [(''num_layers'', SInt (num_layers a)),
      (''hidden_size'', SInt (hidden_size a)),
      (''num_attention_heads'', SInt (num_attention_heads a)),
      (''max_position_embeddings'', SInt (max_position_embeddings a)),
      (''make_vocab_size_divisible_by'', SInt (make_vocab_size_divisible_by a)),
      (''padded_vocab_size'', SInt (padded_vocab_size a)),
      (''tokenizer_type'', SStr (tokenizer_type a)),
      (''model_parallel_size'', SInt (model_parallel_size a))]"

text \<open>The dict \<^verbatim>\<open>sd\<close> as it stands after the first statement.\<close>

definition initial_sd :: "int \<Rightarrow> neox_args \<Rightarrow> 't state_dict" where
  "initial_sd iteration a =
     \<lparr>sd_iteration = Some (SInt iteration),
      sd_total_iters = None,
      sd_args = Some (ArgsDict (checkpoint_args_of a)),
      sd_checkpoint_validation = None,
      sd_random_rng_state = None,
      sd_np_rng_state = None,
      sd_torch_rng_state = None,
      sd_cuda_rng_state = None,
      sd_rng_tracker_states = None\<rparr>"

definition with_rng_states :: "'t world \<Rightarrow> 't state_dict \<Rightarrow> 't state_dict" where
  "with_rng_states w sd =
     sd\<lparr>sd_random_rng_state := Some (random_rng w),
        sd_np_rng_state := Some (np_rng w),
        sd_torch_rng_state := Some (torch_rng w),
        sd_cuda_rng_state := Some (cuda_rng w),
        sd_rng_tracker_states := Some (rng_tracker w)\<rparr>"

text \<open>\<^verbatim>\<open>model.save_checkpoint(neox_args.save, client_state=sd)\<close> is recorded in \<open>saved\<close>.\<close>

definition save_ds_checkpoint ::
  "'t env \<Rightarrow> int \<Rightarrow> neox_args \<Rightarrow> 't world \<Rightarrow> (exn + unit) \<times> 't world" where
  "save_ds_checkpoint e iteration a w =
     (let sd0 = initial_sd iteration a;
          sd1 = (if \<not> no_save_rng a then with_rng_states w sd0 else sd0)
      in if checkpoint_validation_with_forward_pass a then
           (case do_forward_pass e a None w of
              (Inl x, w1) \<Rightarrow> (Inl x, w1)
            | (Inr (context_tokens, logits), w1) \<Rightarrow>
                (Inr (),
                 w1\<lparr>saved := saved w1 @
                   [(save a, sd1\<lparr>sd_checkpoint_validation := Some (context_tokens, logits)\<rparr>)]\<rparr>))
         else (Inr (), w\<lparr>saved := saved w @ [(save a, sd1)]\<rparr>))"

definition save_checkpoint ::
  "'t env \<Rightarrow> neox_args \<Rightarrow> int \<Rightarrow> 't world \<Rightarrow> (exn + unit) \<times> 't world" where
  "save_checkpoint e a iteration w =
     (case (if deepspeed a then save_ds_checkpoint e iteration a w
            else (Inl (ValueError ''Must be using deepspeed to use neox''), w)) of
        (Inl x, w1) \<Rightarrow> (Inl x, w1)
      | (Inr _, w1) \<Rightarrow>
          (let w2 = barrier w1 in
           case (case keep_last_n_checkpoints a of
                   None \<Rightarrow> (Inr (), w2)
                 | Some n \<Rightarrow> delete_old_checkpoints e (save a) n w2) of
             (Inl x, w3) \<Rightarrow> (Inl x, w3)
           | (Inr _, w3) \<Rightarrow> (Inr (), barrier w3)))"

subsection \<open>load_checkpoint\<close>

text \<open>Set iteration.\<close>

definition resolve_iteration :: "neox_args \<Rightarrow> string \<Rightarrow> 't state_dict \<Rightarrow> exn + scalar" where
  "resolve_iteration a checkpoint_name sd =
     (if finetune a then Inr (SInt 0)
      else
        (let iteration = py_or (dict_get (sd_iteration sd)) (dict_get (sd_total_iters sd))
         in if iteration = SNone then
              Inl (ValueError (''Unable to load iteration from checkpoint '' @ checkpoint_name
                               @ '', exiting''))
            else Inr iteration))"

text \<open>Check arguments.\<close>

definition validate_args ::
  "'t env \<Rightarrow> neox_args \<Rightarrow> 't state_dict \<Rightarrow> 't world \<Rightarrow> (exn + unit) \<times> 't world" where
  "validate_args e a sd w =
     (case sd_args sd of
        Some checkpoint_args \<Rightarrow>
          (case check_checkpoint_args a checkpoint_args of
             Inl x \<Rightarrow> (Inl x, w)
           | Inr _ \<Rightarrow>
               (Inr (),
                print_rank_0 e
                  '' > validated currently set args with arguments in the checkpoint ...'' w))
      | None \<Rightarrow>
          (Inr (),
           print_rank_0 e '' > could not find arguments in the checkpoint for validation...'' w))"

text \<open>Check loaded checkpoint with forward pass.\<close>

definition validate_forward ::
  "'t env \<Rightarrow> neox_args \<Rightarrow> string \<Rightarrow> 't state_dict \<Rightarrow> 't world \<Rightarrow> (exn + unit) \<times> 't world" where
  "validate_forward e a checkpoint_name sd w =
     (if checkpoint_validation_with_forward_pass a then
        (case sd_checkpoint_validation sd of
           Some (context_tokens, logits) \<Rightarrow>
             (case check_forward_pass e a context_tokens logits w of
                (Inl x, w1) \<Rightarrow> (Inl x, w1)
              | (Inr _, w1) \<Rightarrow>
                  (Inr (),
                   print_rank_0 e '' > validated loaded checkpoint with forward pass ...'' w1))
         | None \<Rightarrow>
             (Inr (),
              if data_parallel_rank e = 0 then
                print_line
                  ('' > WARNING: checkpoint_validation_with_forward_pass is configured but no checkpoint validation data available in checkpoint ''
                   @ checkpoint_name) w
              else w))
      else (Inr (), w))"

text \<open>The body of the \<^verbatim>\<open>try\<close>: each generator is set as soon as its key is read, so the
  ones before a missing key are already restored when KeyError is raised.\<close>

definition set_rng_states :: "'t state_dict \<Rightarrow> 't world \<Rightarrow> (exn + unit) \<times> 't world" where
  "set_rng_states sd w =
     (case sd_random_rng_state sd of
        None \<Rightarrow> (Inl (KeyError ''random_rng_state''), w)
      | Some r \<Rightarrow>
     (let w1 = w\<lparr>random_rng := r\<rparr> in
      case sd_np_rng_state sd of
        None \<Rightarrow> (Inl (KeyError ''np_rng_state''), w1)
      | Some n \<Rightarrow>
     (let w2 = w1\<lparr>np_rng := n\<rparr> in
      case sd_torch_rng_state sd of
        None \<Rightarrow> (Inl (KeyError ''torch_rng_state''), w2)
      | Some t \<Rightarrow>
     (let w3 = w2\<lparr>torch_rng := t\<rparr> in
      case sd_cuda_rng_state sd of
        None \<Rightarrow> (Inl (KeyError ''cuda_rng_state''), w3)
      | Some c \<Rightarrow>
     (let w4 = w3\<lparr>cuda_rng := c\<rparr> in
      case sd_rng_tracker_states sd of
        None \<Rightarrow> (Inl (KeyError ''rng_tracker_states''), w4)
      | Some k \<Rightarrow> (Inr (), w4\<lparr>rng_tracker := k\<rparr>))))))"

definition rng_exit_message :: "string \<Rightarrow> string" where
  "rng_exit_message checkpoint_name =
     ''Unable to load optimizer from checkpoint '' @ checkpoint_name @
     ''. Specify --no-load-rng or --finetune to prevent attempting to load the optimizer state, exiting ...''"

text \<open>rng states.\<close>

definition restore_rng ::
  "'t env \<Rightarrow> neox_args \<Rightarrow> string \<Rightarrow> 't state_dict \<Rightarrow> 't world \<Rightarrow> (exn + unit) \<times> 't world" where
  "restore_rng e a checkpoint_name sd w =
     (if \<not> finetune a \<and> \<not> no_load_rng a then
        (case set_rng_states sd w of
           (Inl (KeyError k), w1) \<Rightarrow>
             (Inl SystemExit, print_rank_0 e (rng_exit_message checkpoint_name) w1)
         | (Inl x, w1) \<Rightarrow> (Inl x, w1)
         | (Inr _, w1) \<Rightarrow> (Inr (), w1))
      else (Inr (), w))"

text \<open>Everything after the iteration is set.\<close>

definition finish_load ::
  "'t env \<Rightarrow> neox_args \<Rightarrow> string \<Rightarrow> 't state_dict \<Rightarrow> scalar \<Rightarrow> 't world
     \<Rightarrow> (exn + scalar) \<times> 't world" where
  "finish_load e a checkpoint_name sd iteration w =
     (case validate_args e a sd w of
        (Inl x, w1) \<Rightarrow> (Inl x, w1)
      | (Inr _, w1) \<Rightarrow>
     (case validate_forward e a checkpoint_name sd w1 of
        (Inl x, w2) \<Rightarrow> (Inl x, w2)
      | (Inr _, w2) \<Rightarrow>
     (case restore_rng e a checkpoint_name sd w2 of
        (Inl x, w3) \<Rightarrow> (Inl x, w3)
      | (Inr _, w3) \<Rightarrow>
          (let w4 = barrier w3;
               w5 = (if data_parallel_rank e = 0
                     then print_line (''  successfully loaded '' @ checkpoint_name) w4
                     else w4)
           in (Inr iteration, w5)))))"

definition load_checkpoint ::
  "'t env \<Rightarrow> neox_args \<Rightarrow> 't world \<Rightarrow> (exn + scalar) \<times> 't world" where
  "load_checkpoint e a w =
     (if deepspeed a then
        (let load_optim_and_scheduler = \<not> no_load_optim a in
         case engine_load_checkpoint e (load a) load_optim_and_scheduler
                load_optim_and_scheduler of
           (None, state_dict) \<Rightarrow>
             (Inr (SInt 0),
              if data_parallel_rank e = 0 then print_line ''Unable to load checkpoint.'' w
              else w)
         | (Some checkpoint_name, state_dict) \<Rightarrow>
             (case resolve_iteration a checkpoint_name state_dict of
                Inl x \<Rightarrow> (Inl x, w)
              | Inr iteration \<Rightarrow> finish_load e a checkpoint_name state_dict iteration w))
      else (Inl (ValueError ''Must be using deepspeed to use neox''), w))"


subsection \<open>Notions used by the statements\<close>

text \<open>The rank a name is computed for, the parts of a checkpoint name, and the reading
  of a formatted number back into an integer.\<close>

definition parse_int :: "string \<Rightarrow> int" where
  "parse_int s = (case s of [] \<Rightarrow> 0
                  | c # r \<Rightarrow> if c = CHR ''-'' then - int (val_digits r) else int (val_digits s))"

definition root_prefix :: "string \<Rightarrow> string" where
  "root_prefix root = (if root = [] \<or> endswith_sep root then root else root @ ''/'')"

definition effective_rank :: "int \<Rightarrow> int option \<Rightarrow> int" where
  "effective_rank model_parallel_rank mp_rank =
     (case mp_rank of None \<Rightarrow> model_parallel_rank | Some r \<Rightarrow> r)"

definition iter_directory :: "bool \<Rightarrow> int \<Rightarrow> string" where
  "iter_directory release iteration =
     (if release then ''release'' else ''iter_'' @ format_0d 7 iteration)"

definition rank_directory :: "int \<Rightarrow> string" where
  "rank_directory r = ''mp_rank_'' @ format_0d 2 r"

definition payload_filename :: string where
  "payload_filename = ''model_optim_rng.pt''"

text \<open>The slice \<^verbatim>\<open>xs[:k]\<close> of Python: a negative bound counts from the end.\<close>

definition py_slice_to :: "'a list \<Rightarrow> int \<Rightarrow> 'a list" where
  "py_slice_to xs k =
     (if k < 0 then take (nat (int (length xs) + k)) xs else take (nat k) xs)"

text \<open>The retention rule in the words of the specification:
  \<^verbatim>\<open>to_delete = all[: len(all) - keep_n]\<close>.\<close>

definition spec_to_delete :: "string list \<Rightarrow> int \<Rightarrow> string list" where
  "spec_to_delete all_dirs keep_n = py_slice_to all_dirs (int (length all_dirs) - keep_n)"

definition contains_global_step :: "string \<Rightarrow> bool" where
  "contains_global_step s = (\<exists>u v. s = u @ ''global_step'' @ v)"

definition is_file_not_found :: "exn \<Rightarrow> bool" where
  "is_file_not_found x = (case x of FileNotFoundError _ \<Rightarrow> True | _ \<Rightarrow> False)"

text \<open>A path without its trailing slashes, and the matching checkpoint subdirectories of
  a save directory: the entries that glob lists directly below it which are directories
  and match the pattern.\<close>

definition rstrip_sep :: "string \<Rightarrow> string" where
  "rstrip_sep s = rev (dropWhile (\<lambda>c. c = CHR ''/'') (rev s))"

definition matching_subdirs :: "'t env \<Rightarrow> string \<Rightarrow> string list" where
  "matching_subdirs e save_dir = filter (is_ckpt_dir e) (glob e (rstrip_sep save_dir @ ''/*''))"

text \<open>The directory whose entries the retention code lists.\<close>

definition listed_dir :: "string \<Rightarrow> string" where
  "listed_dir save_dir = (if endswith_sep save_dir then strip_sep save_dir else save_dir)"

text \<open>The five random number generator states of the process.\<close>

definition rng_of :: "'t world \<Rightarrow> rng_state \<times> rng_state \<times> rng_state \<times> rng_state \<times> rng_state" where
  "rng_of w = (random_rng w, np_rng w, torch_rng w, cuda_rng w, rng_tracker w)"

text \<open>Whether a stored argument agrees with the field of the same name.\<close>

definition arg_agrees :: "neox_args \<Rightarrow> string \<times> scalar \<Rightarrow> bool" where
  "arg_agrees a item =
     (case getattr a (fst item) of None \<Rightarrow> False | Some args_value \<Rightarrow> py_eq (snd item) args_value)"

subsection \<open>A concrete run\<close>

text \<open>A configuration, a process state and collaborators on which the statements are
  evaluated; tensors are natural numbers here.\<close>

definition example_args :: neox_args where
  "example_args =
     \<lparr>deepspeed = True, finetune = False, no_load_optim = False, no_load_rng = False,
      no_save_rng = False, checkpoint_validation_with_forward_pass = False,
      keep_last_n_checkpoints = Some 2, save = ''/ckpt'', load = ''/ckpt'',
      is_pipe_parallel = False, seq_length = 2048, num_layers = 12, hidden_size = 768,
      num_attention_heads = 12, max_position_embeddings = 2048,
      make_vocab_size_divisible_by = 128, padded_vocab_size = 50304,
      tokenizer_type = ''GPT2BPETokenizer'', model_parallel_size = 1,
      other_attributes = (\<lambda>_. None)\<rparr>"

definition example_world :: "nat world" where
  "example_world =
     \<lparr>training = True, printed = [], barriers = 0, random_rng = 1, np_rng = 2,
      torch_rng = 3, cuda_rng = 4, rng_tracker = 5, rmtree_calls = [], removed = [],
      saved = []\<rparr>"

definition empty_sd :: "nat state_dict" where
  "empty_sd =
     \<lparr>sd_iteration = None, sd_total_iters = None, sd_args = None,
      sd_checkpoint_validation = None, sd_random_rng_state = None, sd_np_rng_state = None,
      sd_torch_rng_state = None, sd_cuda_rng_state = None, sd_rng_tracker_states = None\<rparr>"

definition example_listing :: "string list" where
  "example_listing =
     [''/ckpt/global_step1000'', ''/ckpt/global_step2000'', ''/ckpt/global_step10000'',
      ''/ckpt/latest'', ''/ckpt/global_step500'', ''/ckpt/configs'',
      ''/ckpt/global_step12000'']"

definition example_env :: "nat env" where
  "example_env =
     \<lparr>rank = 0, data_parallel_rank = 0,
      glob = (\<lambda>p. if p = ''/ckpt/*'' then example_listing else []),
      isdir = (\<lambda>p. p \<noteq> ''/ckpt/latest''),
      rmtree = (\<lambda>_. None),
      natural_sort = natural_sort_model,
      randint = (\<lambda>g _ _ _. (7, Suc g)),
      cuda_broadcast = Inr,
      eval_batch = (\<lambda>t. Inr (Some t)),
      is_last_stage = True,
      model_forward = (\<lambda>t. Inr (Suc t)),
      detach_cpu = (\<lambda>t. t),
      tensor_equal_all = (\<lambda>a b. a = b),
      tensor_isclose_all = (\<lambda>a b. a \<le> Suc b \<and> b \<le> Suc a),
      engine_load_checkpoint = (\<lambda>_ _ _. (None, empty_sd))\<rparr>"


definition nested_env :: "nat env" where
  "nested_env =
     example_env\<lparr>glob := (\<lambda>p. if p = ''/runs/global_step_sweep/*''
                                then [''/runs/global_step_sweep/logs'',
                                      ''/runs/global_step_sweep/global_step10'']
                                else []),
                  isdir := (\<lambda>_. True)\<rparr>"

definition flaky_env :: "nat env" where
  "flaky_env =
     example_env\<lparr>rmtree := (\<lambda>p.
        if p = ''/ckpt/global_step500'' then Some (FileNotFoundError p)
        else if p = ''/ckpt/global_step2000'' then Some (OSError ''Permission denied'')
        else None)\<rparr>"

definition failing_env :: "nat env" where
  "failing_env = example_env\<lparr>model_forward := (\<lambda>_. Inl (RuntimeError ''CUDA out of memory''))\<rparr>"

definition stored_sd :: "nat state_dict" where
  "stored_sd =
     \<lparr>sd_iteration = Some (SInt 5000), sd_total_iters = None,
      sd_args = Some (ArgsDict (checkpoint_args_of example_args)),
      sd_checkpoint_validation = None, sd_random_rng_state = Some 11,
      sd_np_rng_state = Some 12, sd_torch_rng_state = Some 13, sd_cuda_rng_state = Some 14,
      sd_rng_tracker_states = Some 15\<rparr>"

definition stored_env :: "nat env" where
  "stored_env =
     example_env\<lparr>engine_load_checkpoint := (\<lambda>_ _ _. (Some ''/ckpt/global_step5000'', stored_sd))\<rparr>"

definition finetune_args :: neox_args where
  "finetune_args = example_args\<lparr>finetune := True\<rparr>"

definition zero_env :: "nat env" where
  "zero_env =
     example_env\<lparr>engine_load_checkpoint :=
       (\<lambda>_ _ _. (Some ''/ckpt/global_step0'', stored_sd\<lparr>sd_iteration := Some (SInt 0)\<rparr>))\<rparr>"

definition deeper_args :: neox_args where
  "deeper_args = example_args\<lparr>num_layers := 24\<rparr>"

definition layers_message :: string where
  "layers_message =
     ''num_layers value from checkpoint (12) is not equal to the currently set argument value (24).''"

section \<open>Properties\<close>

subsection \<open>Decimal formatting and checkpoint names\<close>

lemma digit_val_digit_char: "d < 10 \<Longrightarrow> digit_val (digit_char d) = d"
  by (simp add: digit_val_def digit_char_def)

lemma is_digit_digit_char: "d < 10 \<Longrightarrow> is_digit (digit_char d)"
  by (simp add: is_digit_def digit_char_def)

lemma str_nat_digits: "\<forall>c \<in> set (str_nat n). is_digit c"
proof (induction n rule: str_nat.induct)
  case (1 n)
  show ?case
  proof (cases "n < 10")
    case True
    then show ?thesis by (subst str_nat.simps) (simp add: is_digit_digit_char)
  next
    case False
    with 1 show ?thesis by (subst str_nat.simps) (simp add: is_digit_digit_char)
  qed
qed

lemma str_nat_nonempty: "str_nat n \<noteq> []"
  by (subst str_nat.simps) simp

lemma val_digits_snoc: "val_digits (s @ [c]) = 10 * val_digits s + digit_val c"
  by (simp add: val_digits_def)

lemma val_digits_str_nat: "val_digits (str_nat n) = n"
proof (induction n rule: str_nat.induct)
  case (1 n)
  show ?case
  proof (cases "n < 10")
    case True
    then show ?thesis
      by (subst str_nat.simps) (simp add: val_digits_def digit_val_digit_char)
  next
    case False
    with 1 have "val_digits (str_nat (n div 10)) = n div 10" by simp
    with False show ?thesis
      by (subst str_nat.simps) (simp add: val_digits_snoc digit_val_digit_char)
  qed
qed

lemma val_digits_zeros: "val_digits (replicate k (CHR ''0'') @ s) = val_digits s"
proof -
  have "foldl (\<lambda>a c. 10 * a + digit_val c) 0 (replicate k (CHR ''0'')) = 0"
    by (induction k) (simp_all add: digit_val_def)
  then show ?thesis by (simp add: val_digits_def)
qed

lemma val_digits_zero_pad: "val_digits (zero_pad w s) = val_digits s"
  by (simp add: zero_pad_def val_digits_zeros)

lemma zero_pad_digits: "\<forall>c \<in> set s. is_digit c \<Longrightarrow> \<forall>c \<in> set (zero_pad w s). is_digit c"
  by (auto simp: zero_pad_def is_digit_def)

lemma zero_pad_nonempty: "s \<noteq> [] \<Longrightarrow> zero_pad w s \<noteq> []"
  by (simp add: zero_pad_def)

lemma parse_int_format_0d: "parse_int (format_0d w i) = i"
proof (cases "i < 0")
  case True
  then show ?thesis
    by (simp add: format_0d_def parse_int_def val_digits_zero_pad val_digits_str_nat)
next
  case False
  let ?s = "zero_pad w (str_nat (nat i))"
  have ne: "?s \<noteq> []" by (simp add: zero_pad_nonempty str_nat_nonempty)
  have dg: "\<forall>c \<in> set ?s. is_digit c" by (rule zero_pad_digits) (rule str_nat_digits)
  from ne obtain c r where cr: "?s = c # r" by (cases ?s) auto
  with dg have "is_digit c" by simp
  then have "c \<noteq> CHR ''-''" by (auto simp: is_digit_def)
  with cr False show ?thesis
    using val_digits_zero_pad[of w "str_nat (nat i)"]
    by (simp add: format_0d_def parse_int_def val_digits_str_nat)
qed

lemma format_0d_inj: "format_0d w i = format_0d w j \<Longrightarrow> i = j"
  by (metis parse_int_format_0d)

lemma format_0d_chars: "c \<in> set (format_0d w i) \<Longrightarrow> is_digit c \<or> c = CHR ''-''"
  using zero_pad_digits[OF str_nat_digits]
  by (auto simp: format_0d_def split: if_splits)

lemma format_0d_no_sep: "CHR ''/'' \<notin> set (format_0d w i)"
  using format_0d_chars[of "CHR ''/''" w i] by (auto simp: is_digit_def)

lemma format_0d_nonempty: "format_0d w i \<noteq> []"
  by (simp add: format_0d_def zero_pad_nonempty str_nat_nonempty)

lemma format_0d_last: "last (format_0d w i) \<noteq> CHR ''/''"
  using format_0d_no_sep[of w i] format_0d_nonempty[of w i] last_in_set by metis

lemma split_at_sep:
  "CHR ''/'' \<notin> set a \<Longrightarrow> CHR ''/'' \<notin> set b \<Longrightarrow> a @ CHR ''/'' # x = b @ CHR ''/'' # y
     \<Longrightarrow> a = b \<and> x = y"
proof (induction a arbitrary: b)
  case Nil
  then show ?case by (cases b) auto
next
  case (Cons c a)
  then show ?case by (cases b) auto
qed

lemma str_nat_length: "0 < k \<Longrightarrow> n < 10 ^ k \<Longrightarrow> length (str_nat n) \<le> k"
proof (induction n arbitrary: k rule: str_nat.induct)
  case (1 n)
  show ?case
  proof (cases "n < 10")
    case True
    with 1 show ?thesis by (subst str_nat.simps) simp
  next
    case False
    with "1.prems" have k2: "1 < k" by (cases k; cases "k - 1") auto
    then obtain k' where k': "k = Suc k'" "0 < k'" by (cases k) auto
    with "1.prems" have "n div 10 < 10 ^ k'" by (simp add: less_mult_imp_div_less mult.commute)
    with 1(1)[OF False k'(2)] have "length (str_nat (n div 10)) \<le> k'" by simp
    with False k' show ?thesis by (subst str_nat.simps) simp
  qed
qed

lemma format_0d_length:
  "0 < w \<Longrightarrow> 0 \<le> i \<Longrightarrow> i < 10 ^ w \<Longrightarrow> length (format_0d w i) = w"
proof -
  assume w: "0 < w" and i: "0 \<le> i" "i < 10 ^ w"
  then have "nat i < 10 ^ w" by (simp add: nat_less_iff)
  with w have "length (str_nat (nat i)) \<le> w" by (rule str_nat_length)
  with i show ?thesis by (simp add: format_0d_def zero_pad_def)
qed


lemma join_step_plain:
  "\<not> startswith_sep b \<Longrightarrow> join_step path b = root_prefix path @ b"
  by (simp add: join_step_def root_prefix_def)

lemma root_prefix_open:
  "p \<noteq> [] \<Longrightarrow> last p \<noteq> CHR ''/'' \<Longrightarrow> root_prefix p = p @ ''/''"
  by (simp add: root_prefix_def endswith_sep_def)

lemma iter_directory_props:
  "\<not> startswith_sep (iter_directory rel i)" "iter_directory rel i \<noteq> []"
  "last (iter_directory rel i) \<noteq> CHR ''/''" "CHR ''/'' \<notin> set (iter_directory rel i)"
  using format_0d_no_sep[of 7 i]
  by (simp_all add: iter_directory_def startswith_sep_def format_0d_nonempty format_0d_last)

lemma rank_directory_props:
  "\<not> startswith_sep (rank_directory r)" "rank_directory r \<noteq> []"
  "last (rank_directory r) \<noteq> CHR ''/''" "CHR ''/'' \<notin> set (rank_directory r)"
  using format_0d_no_sep[of 2 r]
  by (simp_all add: rank_directory_def startswith_sep_def format_0d_nonempty format_0d_last)

lemma payload_filename_props: "\<not> startswith_sep payload_filename"
  by (simp add: payload_filename_def startswith_sep_def)

lemma join_step_open:
  "\<not> startswith_sep b \<Longrightarrow> p \<noteq> [] \<Longrightarrow> last p \<noteq> CHR ''/'' \<Longrightarrow>
     join_step p b = p @ CHR ''/'' # b"
  by (simp add: join_step_def endswith_sep_def)

lemma get_checkpoint_name_unfold:
  "get_checkpoint_name mr root i rel m =
     root_prefix root @ iter_directory rel i @ CHR ''/'' #
       rank_directory (effective_rank mr m) @ CHR ''/'' # payload_filename"
proof -
  let ?d = "iter_directory rel i"
  let ?r = "rank_directory (effective_rank mr m)"
  have s1: "join_step root ?d = root_prefix root @ ?d"
    by (rule join_step_plain) (rule iter_directory_props)
  have s2: "join_step (root_prefix root @ ?d) ?r = (root_prefix root @ ?d) @ CHR ''/'' # ?r"
    by (rule join_step_open) (simp_all add: iter_directory_props rank_directory_props)
  have s3: "join_step ((root_prefix root @ ?d) @ CHR ''/'' # ?r) payload_filename
            = ((root_prefix root @ ?d) @ CHR ''/'' # ?r) @ CHR ''/'' # payload_filename"
    by (rule join_step_open) (simp_all add: rank_directory_props payload_filename_props)
  have "get_checkpoint_name mr root i rel m =
        join_step (join_step (join_step root ?d) ?r) payload_filename"
    by (simp add: get_checkpoint_name_def os_path_join_def effective_rank_def Let_def
         iter_directory_def rank_directory_def payload_filename_def)
  also have "\<dots> = ((root_prefix root @ ?d) @ CHR ''/'' # ?r) @ CHR ''/'' # payload_filename"
    by (simp only: s1 s2 s3)
  finally show ?thesis by simp
qed

lemma iter_directory_eq:
  "(iter_directory r1 i1 = iter_directory r2 i2) = (r1 = r2 \<and> (r1 \<or> i1 = i2))"
  by (auto simp: iter_directory_def dest: format_0d_inj)

lemma rank_directory_eq: "(rank_directory r1 = rank_directory r2) = (r1 = r2)"
  by (auto simp: rank_directory_def dest: format_0d_inj)

lemma split_at_sep_iff:
  assumes "CHR ''/'' \<notin> set a" and "CHR ''/'' \<notin> set b"
  shows "(a @ CHR ''/'' # x = b @ CHR ''/'' # y) = (a = b \<and> x = y)"
proof (rule iffI)
  assume "a @ CHR ''/'' # x = b @ CHR ''/'' # y"
  with assms show "a = b \<and> x = y" by (rule split_at_sep)
next
  assume "a = b \<and> x = y"
  then show "a @ CHR ''/'' # x = b @ CHR ''/'' # y" by simp
qed

lemma get_checkpoint_name_eq_iff:
  "(get_checkpoint_name mr root i1 rel1 m1 = get_checkpoint_name mr root i2 rel2 m2) =
   (rel1 = rel2 \<and> effective_rank mr m1 = effective_rank mr m2 \<and> (rel1 \<or> i1 = i2))"
proof -
  let ?d1 = "iter_directory rel1 i1" and ?d2 = "iter_directory rel2 i2"
  let ?r1 = "rank_directory (effective_rank mr m1)" and ?r2 = "rank_directory (effective_rank mr m2)"
  let ?f = "payload_filename"
  have "(get_checkpoint_name mr root i1 rel1 m1 = get_checkpoint_name mr root i2 rel2 m2) =
        (?d1 @ CHR ''/'' # (?r1 @ CHR ''/'' # ?f) = ?d2 @ CHR ''/'' # (?r2 @ CHR ''/'' # ?f))"
    by (simp only: get_checkpoint_name_unfold same_append_eq)
  also have "\<dots> = (?d1 = ?d2 \<and> ?r1 @ CHR ''/'' # ?f = ?r2 @ CHR ''/'' # ?f)"
    by (rule split_at_sep_iff) (rule iter_directory_props)+
  also have "\<dots> = (?d1 = ?d2 \<and> ?r1 = ?r2)"
    by (simp only: append_same_eq)
  also have "\<dots> = (rel1 = rel2 \<and> (rel1 \<or> i1 = i2) \<and> effective_rank mr m1 = effective_rank mr m2)"
    by (simp only: iter_directory_eq rank_directory_eq conj_assoc)
  finally show ?thesis by (simp only: conj_ac)
qed

lemma format_0d_all_digits: "0 \<le> i \<Longrightarrow> list_all is_digit (format_0d w i)"
  using zero_pad_digits[OF str_nat_digits, of w "nat i"]
  by (simp add: format_0d_def list_all_iff)

text \<open>
  C3 (amended). For a fixed root, two checkpoint names are equal exactly when the release
  flags agree, the ranks agree and, unless the name is a release name, the iterations
  agree: the naming is injective on (iteration, rank) for ordinary checkpoints, and a
  release name does not depend on the iteration. The name is the root, the iteration
  directory (the literal release, or iter_ and the iteration padded with zeros), the
  rank directory (mp_rank_ and the padded rank) and the payload file name, separated by
  slashes; an iteration below ten million gives exactly seven digits and a rank below one
  hundred exactly two.
\<close>

theorem get_checkpoint_name_injective:
  "((get_checkpoint_name mr root i1 rel1 m1 = get_checkpoint_name mr root i2 rel2 m2) =
      (rel1 = rel2 \<and> effective_rank mr m1 = effective_rank mr m2 \<and> (rel1 \<or> i1 = i2))) \<and>
   get_checkpoint_name mr root i1 rel1 m1 =
      root_prefix root @ (if rel1 then ''release'' else ''iter_'' @ format_0d 7 i1) @ ''/'' @
      (''mp_rank_'' @ format_0d 2 (effective_rank mr m1)) @ ''/'' @ ''model_optim_rng.pt'' \<and>
   (0 \<le> i1 \<and> i1 < 10000000 \<longrightarrow>
      length (format_0d 7 i1) = 7 \<and> list_all is_digit (format_0d 7 i1) \<and>
      parse_int (format_0d 7 i1) = i1) \<and>
   (0 \<le> effective_rank mr m1 \<and> effective_rank mr m1 < 100 \<longrightarrow>
      length (format_0d 2 (effective_rank mr m1)) = 2 \<and>
      list_all is_digit (format_0d 2 (effective_rank mr m1)) \<and>
      parse_int (format_0d 2 (effective_rank mr m1)) = effective_rank mr m1)"
proof (intro conjI impI)
  show "(get_checkpoint_name mr root i1 rel1 m1 = get_checkpoint_name mr root i2 rel2 m2) =
      (rel1 = rel2 \<and> effective_rank mr m1 = effective_rank mr m2 \<and> (rel1 \<or> i1 = i2))"
    by (rule get_checkpoint_name_eq_iff)
  show "get_checkpoint_name mr root i1 rel1 m1 =
      root_prefix root @ (if rel1 then ''release'' else ''iter_'' @ format_0d 7 i1) @ ''/'' @
      (''mp_rank_'' @ format_0d 2 (effective_rank mr m1)) @ ''/'' @ ''model_optim_rng.pt''"
    by (simp only: get_checkpoint_name_unfold iter_directory_def rank_directory_def
          payload_filename_def append_Cons append_Nil)
next
  assume "0 \<le> i1 \<and> i1 < 10000000"
  then show "length (format_0d 7 i1) = 7"
    using format_0d_length[of 7 i1] by simp
next
  assume "0 \<le> i1 \<and> i1 < 10000000"
  then show "list_all is_digit (format_0d 7 i1)" by (simp add: format_0d_all_digits)
next
  show "parse_int (format_0d 7 i1) = i1" by (rule parse_int_format_0d)
next
  assume "0 \<le> effective_rank mr m1 \<and> effective_rank mr m1 < 100"
  then show "length (format_0d 2 (effective_rank mr m1)) = 2"
    using format_0d_length[of 2 "effective_rank mr m1"] by simp
next
  assume "0 \<le> effective_rank mr m1 \<and> effective_rank mr m1 < 100"
  then show "list_all is_digit (format_0d 2 (effective_rank mr m1))"
    by (simp add: format_0d_all_digits)
next
  show "parse_int (format_0d 2 (effective_rank mr m1)) = effective_rank mr m1"
    by (rule parse_int_format_0d)
qed

theorem get_checkpoint_name_injective_witness:
  "get_checkpoint_name 3 ''/ckpt'' 5000 False None \<noteq>
     get_checkpoint_name 3 ''/ckpt'' 5001 False None \<and>
   get_checkpoint_name 3 ''/ckpt'' 5000 False None \<noteq>
     get_checkpoint_name 3 ''/ckpt'' 5000 False (Some 4) \<and>
   get_checkpoint_name 3 ''/ckpt'' 5000 False None \<noteq>
     get_checkpoint_name 3 ''/ckpt'' 5000 True None \<and>
   get_checkpoint_name 3 ''/ckpt'' 5000 False None =
     ''/ckpt/iter_0005000/mp_rank_03/model_optim_rng.pt'' \<and>
   (0::int) \<le> 5000 \<and> (5000::int) < 10000000 \<and> length (format_0d 7 5000) = 7 \<and>
   (0::int) \<le> effective_rank 3 None \<and> effective_rank 3 None < 100 \<and>
   length (format_0d 2 (effective_rank 3 None)) = 2"
proof -
  have a: "get_checkpoint_name 3 ''/ckpt'' 5000 False None \<noteq>
           get_checkpoint_name 3 ''/ckpt'' 5001 False None"
    using get_checkpoint_name_injective[of 3 "''/ckpt''" 5000 False None 5001 False None,
            THEN conjunct1]
    by simp
  have b: "get_checkpoint_name 3 ''/ckpt'' 5000 False None \<noteq>
           get_checkpoint_name 3 ''/ckpt'' 5000 False (Some 4)"
    using get_checkpoint_name_injective[of 3 "''/ckpt''" 5000 False None 5000 False "Some 4",
            THEN conjunct1]
    by (simp add: effective_rank_def)
  have c: "get_checkpoint_name 3 ''/ckpt'' 5000 False None \<noteq>
           get_checkpoint_name 3 ''/ckpt'' 5000 True None"
    using get_checkpoint_name_injective[of 3 "''/ckpt''" 5000 False None 5000 True None,
            THEN conjunct1]
    by simp
  have d: "get_checkpoint_name 3 ''/ckpt'' 5000 False None =
           ''/ckpt/iter_0005000/mp_rank_03/model_optim_rng.pt''"
    by code_simp
  have e: "effective_rank 3 None = 3" by (simp add: effective_rank_def)
  have f: "length (format_0d 7 5000) = 7"
    using get_checkpoint_name_injective[of 3 "''/ckpt''" 5000 False None 5000 False None,
            THEN conjunct2, THEN conjunct2, THEN conjunct1]
    by simp
  have g: "length (format_0d 2 (effective_rank 3 None)) = 2"
    using get_checkpoint_name_injective[of 3 "''/ckpt''" 5000 False None 5000 False None,
            THEN conjunct2, THEN conjunct2, THEN conjunct2] e
    by simp
  show ?thesis using a b c d e f g by simp
qed

text \<open>
  C3 as stated fails: two release names that differ only in the iteration are the same
  path.
\<close>

theorem get_checkpoint_name_release_collision:
  "(1::int, 0::int, True) \<noteq> (2, 0, True) \<and>
   get_checkpoint_name 0 ''/ckpt'' 1 True (Some 0) =
     get_checkpoint_name 0 ''/ckpt'' 2 True (Some 0)"
  by (simp add: get_checkpoint_name_def)

subsection \<open>Retention\<close>

lemma match_here_digit_star: "match_here [DigitStar] s \<noteq> None"
  by (induction s) (auto split: option.splits)

lemma match_here_literal:
  "(match_here (map Lit l @ [DigitStar]) s \<noteq> None) = (\<exists>v. s = l @ v)"
proof (induction l arbitrary: s)
  case Nil
  then show ?case using match_here_digit_star by simp
next
  case (Cons c l)
  show ?case
  proof (cases s)
    case Nil
    then show ?thesis by simp
  next
    case (Cons x xs)
    with Cons.IH[of xs] show ?thesis by auto
  qed
qed

lemma re_search_literal:
  "(re_search (map Lit l @ [DigitStar]) s \<noteq> None) = (\<exists>u v. s = u @ l @ v)"
proof (induction s)
  case Nil
  have "(re_search (map Lit l @ [DigitStar]) [] \<noteq> None) = (\<exists>v. [] = l @ v)"
    using match_here_literal[of l "[]"] by simp
  then show ?case by simp
next
  case (Cons x xs)
  have m: "(match_here (map Lit l @ [DigitStar]) (x # xs) \<noteq> None) = (\<exists>v. x # xs = l @ v)"
    by (rule match_here_literal)
  have split: "(\<exists>u v. x # xs = u @ l @ v) = ((\<exists>v. x # xs = l @ v) \<or> (\<exists>u v. xs = u @ l @ v))"
  proof
    assume "\<exists>u v. x # xs = u @ l @ v"
    then obtain u v where uv: "x # xs = u @ l @ v" by auto
    show "(\<exists>v. x # xs = l @ v) \<or> (\<exists>u v. xs = u @ l @ v)"
    proof (cases u)
      case Nil
      with uv show ?thesis by auto
    next
      case (Cons y ys)
      with uv have "xs = ys @ l @ v" by simp
      then show ?thesis by auto
    qed
  next
    assume "(\<exists>v. x # xs = l @ v) \<or> (\<exists>u v. xs = u @ l @ v)"
    then show "\<exists>u v. x # xs = u @ l @ v"
    proof
      assume "\<exists>v. x # xs = l @ v"
      then obtain v where "x # xs = [] @ l @ v" by auto
      then show ?thesis by (rule_tac x="[]" in exI) auto
    next
      assume "\<exists>u v. xs = u @ l @ v"
      then obtain u v where "xs = u @ l @ v" by auto
      then have "x # xs = (x # u) @ l @ v" by simp
      then show ?thesis by (intro exI)
    qed
  qed
  have "(re_search (map Lit l @ [DigitStar]) (x # xs) \<noteq> None) =
        (match_here (map Lit l @ [DigitStar]) (x # xs) \<noteq> None \<or>
         re_search (map Lit l @ [DigitStar]) xs \<noteq> None)"
    by (cases "match_here (map Lit l @ [DigitStar]) (x # xs)";
        cases "re_search (map Lit l @ [DigitStar]) xs") auto
  then show ?case using m Cons.IH split by simp
qed

lemma re_search_ckpt_dir_regex:
  "(re_search ckpt_dir_regex i \<noteq> None) = contains_global_step i"
  unfolding ckpt_dir_regex_def contains_global_step_def by (rule re_search_literal)

lemma contains_global_step_prefix:
  "contains_global_step d \<Longrightarrow> contains_global_step (d @ rest)"
proof -
  assume "contains_global_step d"
  then obtain u v where "d = u @ ''global_step'' @ v"
    unfolding contains_global_step_def by blast
  then have "d @ rest = u @ ''global_step'' @ (v @ rest)" by simp
  then show ?thesis unfolding contains_global_step_def by (intro exI)
qed

lemma set_natural_insert: "set (natural_insert x ys) = insert x (set ys)"
  by (induction ys) auto

lemma set_foldl_natural_insert:
  "set (foldl (\<lambda>acc x. natural_insert x acc) acc xs) = set acc \<union> set xs"
  by (induction xs arbitrary: acc) (auto simp: set_natural_insert)

lemma set_natural_sort_model: "set (natural_sort_model xs) = set xs"
  by (simp add: natural_sort_model_def set_foldl_natural_insert)


lemma remove_all_succeeds:
  "\<forall>c \<in> set cs. rmtree e c = None \<Longrightarrow>
     remove_all e cs w =
       (Inr (), w\<lparr>rmtree_calls := rmtree_calls w @ cs, removed := removed w @ cs\<rparr>)"
proof (induction cs arbitrary: w)
  case Nil
  then show ?case by simp
next
  case (Cons c cs)
  then show ?case by (simp add: Let_def)
qed

lemma remove_all_tolerant:
  "\<forall>c \<in> set cs. rmtree e c = None \<or> (\<exists>m. rmtree e c = Some (FileNotFoundError m)) \<Longrightarrow>
     remove_all e cs w =
       (Inr (), w\<lparr>rmtree_calls := rmtree_calls w @ cs,
                  removed := removed w @ filter (\<lambda>c. rmtree e c = None) cs\<rparr>)"
proof (induction cs arbitrary: w)
  case Nil
  then show ?case by simp
next
  case (Cons c cs)
  then have rest: "\<forall>c \<in> set cs. rmtree e c = None \<or> (\<exists>m. rmtree e c = Some (FileNotFoundError m))"
    by simp
  from Cons.prems have "rmtree e c = None \<or> (\<exists>m. rmtree e c = Some (FileNotFoundError m))"
    by simp
  then show ?case
  proof
    assume "rmtree e c = None"
    then show ?thesis using Cons.IH[OF rest] by (simp add: Let_def)
  next
    assume "\<exists>m. rmtree e c = Some (FileNotFoundError m)"
    then obtain m where "rmtree e c = Some (FileNotFoundError m)" by auto
    then show ?thesis using Cons.IH[OF rest] by (simp add: Let_def)
  qed
qed

lemma remove_all_other_error:
  assumes "rmtree e c = Some x" and "\<not> is_file_not_found x"
  shows "remove_all e (c # rest) w = (Inl x, w\<lparr>rmtree_calls := rmtree_calls w @ [c]\<rparr>)"
  using assms by (cases x) (simp_all add: Let_def is_file_not_found_def)

lemma remove_all_append:
  "remove_all e (pre @ post) w =
     (case remove_all e pre w of
        (Inl x, w1) \<Rightarrow> (Inl x, w1)
      | (Inr u, w1) \<Rightarrow> remove_all e post w1)"
proof (induction pre arbitrary: w)
  case Nil
  then show ?case by simp
next
  case (Cons c pre)
  show ?case
  proof (cases "rmtree e c")
    case None
    then show ?thesis using Cons.IH by (simp add: Let_def)
  next
    case (Some x)
    then show ?thesis using Cons.IH by (cases x) (simp_all add: Let_def)
  qed
qed


lemma do_forward_pass_frame:
  "rmtree_calls (snd (do_forward_pass e a ct w)) = rmtree_calls w \<and>
   removed (snd (do_forward_pass e a ct w)) = removed w \<and>
   saved (snd (do_forward_pass e a ct w)) = saved w \<and>
   printed (snd (do_forward_pass e a ct w)) = printed w"
  by (simp add: do_forward_pass_def torch_randint_def Let_def barrier_def
           split: sum.splits option.splits)

text \<open>With the tokens given, as on load, no probe is drawn and the generators are not
  touched.\<close>

lemma do_forward_pass_rng:
  "rng_of (snd (do_forward_pass e a (Some t) w)) = rng_of w"
  by (simp add: do_forward_pass_def Let_def barrier_def rng_of_def split: sum.splits)

lemma save_ds_checkpoint_frame:
  "rmtree_calls (snd (save_ds_checkpoint e i a w)) = rmtree_calls w \<and>
   removed (snd (save_ds_checkpoint e i a w)) = removed w"
proof (cases "do_forward_pass e a None w")
  case (Pair r w1)
  with do_forward_pass_frame[of e a None w]
  have "rmtree_calls w1 = rmtree_calls w \<and> removed w1 = removed w" by simp
  with Pair show ?thesis
    by (auto simp: save_ds_checkpoint_def Let_def split: sum.splits prod.splits)
qed

lemma delete_old_checkpoints_unfold:
  "rank e = 0 \<Longrightarrow>
   delete_old_checkpoints e save_dir n w =
     (if 0 < int (length (all_ckpts e save_dir)) - n then
        remove_all e (take (nat (int (length (all_ckpts e save_dir)) - n)) (all_ckpts e save_dir))
          (print_line
             (deleting_message
                (take (nat (int (length (all_ckpts e save_dir)) - n)) (all_ckpts e save_dir))) w)
      else (Inr (), w))"
  by (simp add: delete_old_checkpoints_def Let_def)

lemma spec_to_delete_within:
  "keep_n \<le> int (length xs) \<Longrightarrow> spec_to_delete xs keep_n = take (nat (int (length xs) - keep_n)) xs"
  by (simp add: spec_to_delete_def py_slice_to_def)

lemma delete_old_checkpoints_removed:
  assumes "rank e = 0" and "\<forall>c \<in> set (all_ckpts e save_dir). rmtree e c = None"
  shows "fst (delete_old_checkpoints e save_dir keep_n w) = Inr ()"
    and "removed (snd (delete_old_checkpoints e save_dir keep_n w)) =
        removed w @ (if keep_n \<le> int (length (all_ckpts e save_dir))
                     then spec_to_delete (all_ckpts e save_dir) keep_n else [])"
proof -
  let ?all = "all_ckpts e save_dir"
  let ?n = "int (length ?all) - keep_n"
  let ?td = "take (nat ?n) ?all"
  have ok: "\<forall>c \<in> set ?td. rmtree e c = None"
    using assms(2) by (auto dest: in_set_takeD)
  have run: "delete_old_checkpoints e save_dir keep_n w =
        (if 0 < ?n then remove_all e ?td (print_line (deleting_message ?td) w) else (Inr (), w))"
    using assms(1) by (simp add: delete_old_checkpoints_unfold)
  show "fst (delete_old_checkpoints e save_dir keep_n w) = Inr ()"
    by (simp add: run remove_all_succeeds[OF ok])
  show "removed (snd (delete_old_checkpoints e save_dir keep_n w)) =
        removed w @ (if keep_n \<le> int (length ?all) then spec_to_delete ?all keep_n else [])"
  proof (cases "0 < ?n")
    case True
    then have "keep_n \<le> int (length ?all)" by simp
    then show ?thesis
      using True by (simp add: run remove_all_succeeds[OF ok] spec_to_delete_within print_line_def)
  next
    case False
    then show ?thesis by (simp add: run spec_to_delete_within)
  qed
qed

lemma dropWhile_unchanged: "xs = [] \<or> \<not> P (hd xs) \<Longrightarrow> dropWhile P xs = xs"
  by (cases xs) auto

lemma rstrip_sep_unchanged: "\<not> endswith_sep s \<Longrightarrow> rstrip_sep s = s"
proof -
  assume "\<not> endswith_sep s"
  then have "rev s = [] \<or> \<not> (hd (rev s) = CHR ''/'')"
    by (auto simp: endswith_sep_def hd_rev)
  then have "dropWhile (\<lambda>c. c = CHR ''/'') (rev s) = rev s"
    by (rule dropWhile_unchanged)
  then show ?thesis by (simp add: rstrip_sep_def)
qed

text \<open>Unless the path both starts and ends with a slash, the directory the code lists
  is the save directory without its trailing slashes.\<close>

lemma listed_dir_rstrip:
  assumes "\<not> (startswith_sep s \<and> endswith_sep s)"
  shows "listed_dir s = rstrip_sep s"
proof (cases "endswith_sep s")
  case False
  then show ?thesis by (simp add: listed_dir_def rstrip_sep_unchanged)
next
  case True
  with assms have "\<not> startswith_sep s" by simp
  then have "s = [] \<or> \<not> (hd s = CHR ''/'')"
    by (cases s) (auto simp: startswith_sep_def)
  then have "dropWhile (\<lambda>c. c = CHR ''/'') s = s"
    by (rule dropWhile_unchanged)
  with True show ?thesis by (simp add: listed_dir_def strip_sep_def rstrip_sep_def)
qed

lemma all_ckpts_matching_subdirs:
  "\<not> (startswith_sep save_dir \<and> endswith_sep save_dir) \<Longrightarrow>
     all_ckpts e save_dir = natural_sort e (matching_subdirs e save_dir)"
  using listed_dir_rstrip[of save_dir]
  by (simp add: all_ckpts_def matching_subdirs_def listed_dir_def Let_def)

text \<open>A save directory written with a slash at both ends loses the leading one as well:
  the code then lists a relative path.\<close>

lemma listed_dir_both_slashes:
  "listed_dir ''/ckpt/'' = ''ckpt'' \<and> rstrip_sep ''/ckpt/'' = ''/ckpt''"
  by (simp add: listed_dir_def endswith_sep_def strip_sep_def rstrip_sep_def)

text \<open>
  C2 (amended). Let all be the matching checkpoint subdirectories of save_dir in natural
  sorted order, for a save_dir that is not written with a slash at both ends. On rank 0,
  when every removal succeeds, the directories deleted are exactly the prefix
  all[: len(all) - keep_n] whenever keep_n is at most len(all), and none at all when
  keep_n is larger than len(all); on any other rank nothing is deleted.
\<close>

theorem retention_removes_oldest_prefix:
  "(rank e = 0 \<and> \<not> (startswith_sep save_dir \<and> endswith_sep save_dir) \<and>
    all_dirs = natural_sort e (matching_subdirs e save_dir) \<and>
    (\<forall>c \<in> set all_dirs. rmtree e c = None) \<longrightarrow>
      fst (delete_old_checkpoints e save_dir keep_n w) = Inr () \<and>
      removed (snd (delete_old_checkpoints e save_dir keep_n w)) =
        removed w @ (if keep_n \<le> int (length all_dirs)
                     then spec_to_delete all_dirs keep_n else [])) \<and>
   (rank e \<noteq> 0 \<longrightarrow> delete_old_checkpoints e save_dir keep_n w = (Inr (), w))"
proof (intro conjI impI)
  assume h: "rank e = 0 \<and> \<not> (startswith_sep save_dir \<and> endswith_sep save_dir) \<and>
    all_dirs = natural_sort e (matching_subdirs e save_dir) \<and>
    (\<forall>c \<in> set all_dirs. rmtree e c = None)"
  then have a: "all_ckpts e save_dir = all_dirs"
    by (simp add: all_ckpts_matching_subdirs)
  from h a have ok: "\<forall>c \<in> set (all_ckpts e save_dir). rmtree e c = None" by simp
  from h have r: "rank e = 0" by simp
  show "fst (delete_old_checkpoints e save_dir keep_n w) = Inr ()"
    by (rule delete_old_checkpoints_removed(1)[OF r ok])
  show "removed (snd (delete_old_checkpoints e save_dir keep_n w)) =
        removed w @ (if keep_n \<le> int (length all_dirs)
                     then spec_to_delete all_dirs keep_n else [])"
    using delete_old_checkpoints_removed(2)[OF r ok, of keep_n w] by (simp only: a)
next
  assume "rank e \<noteq> 0"
  then show "delete_old_checkpoints e save_dir keep_n w = (Inr (), w)"
    by (simp add: delete_old_checkpoints_def)
qed

lemma example_all_ckpts:
  "all_ckpts example_env ''/ckpt'' =
     [''/ckpt/global_step500'', ''/ckpt/global_step1000'', ''/ckpt/global_step2000'',
      ''/ckpt/global_step10000'', ''/ckpt/global_step12000'']"
  by code_simp

lemma example_open_path: "\<not> (startswith_sep ''/ckpt'' \<and> endswith_sep ''/ckpt'')"
  by (simp add: endswith_sep_def)

lemma example_matching_subdirs:
  "natural_sort example_env (matching_subdirs example_env ''/ckpt'') =
     [''/ckpt/global_step500'', ''/ckpt/global_step1000'', ''/ckpt/global_step2000'',
      ''/ckpt/global_step10000'', ''/ckpt/global_step12000'']"
  using all_ckpts_matching_subdirs[OF example_open_path, of example_env]
  by (simp only: example_all_ckpts)

theorem retention_removes_oldest_prefix_witness:
  "rank example_env = 0 \<and>
   \<not> (startswith_sep ''/ckpt'' \<and> endswith_sep ''/ckpt'') \<and>
   natural_sort example_env (matching_subdirs example_env ''/ckpt'') =
     [''/ckpt/global_step500'', ''/ckpt/global_step1000'', ''/ckpt/global_step2000'',
      ''/ckpt/global_step10000'', ''/ckpt/global_step12000''] \<and>
   list_all (\<lambda>c. rmtree example_env c = None)
     (natural_sort example_env (matching_subdirs example_env ''/ckpt'')) \<and>
   fst (delete_old_checkpoints example_env ''/ckpt'' 2 example_world) = Inr () \<and>
   removed (snd (delete_old_checkpoints example_env ''/ckpt'' 2 example_world)) =
     [''/ckpt/global_step500'', ''/ckpt/global_step1000'', ''/ckpt/global_step2000'']"
proof -
  let ?all = "natural_sort example_env (matching_subdirs example_env ''/ckpt'')"
  have r: "rank example_env = 0" by (simp add: example_env_def)
  have ok: "\<forall>c \<in> set ?all. rmtree example_env c = None"
    by (simp add: example_env_def)
  have sp: "spec_to_delete ?all 2 =
     [''/ckpt/global_step500'', ''/ckpt/global_step1000'', ''/ckpt/global_step2000'']"
    by (simp add: example_matching_subdirs spec_to_delete_def py_slice_to_def)
  have rm: "removed example_world = []" by (simp add: example_world_def)
  have len: "length ?all = 5" by (simp add: example_matching_subdirs)
  from retention_removes_oldest_prefix[of example_env "''/ckpt''" ?all 2 example_world]
    r example_open_path ok
  have "fst (delete_old_checkpoints example_env ''/ckpt'' 2 example_world) = Inr () \<and>
      removed (snd (delete_old_checkpoints example_env ''/ckpt'' 2 example_world)) =
        removed example_world @ (if 2 \<le> int (length ?all) then spec_to_delete ?all 2 else [])"
    by blast
  then have "fst (delete_old_checkpoints example_env ''/ckpt'' 2 example_world) = Inr () \<and>
      removed (snd (delete_old_checkpoints example_env ''/ckpt'' 2 example_world)) =
        [''/ckpt/global_step500'', ''/ckpt/global_step1000'', ''/ckpt/global_step2000'']"
    using sp rm len by simp
  moreover have "list_all (\<lambda>c. rmtree example_env c = None) ?all"
    using ok by (simp add: list_all_iff)
  ultimately show ?thesis using r example_open_path example_matching_subdirs by simp
qed

text \<open>
  C2 as stated fails when keep_n exceeds the number of checkpoints: with five
  checkpoint directories and keep_n = 7 the slice all[: 5 - 7] is all[:-2], the three
  oldest, while the code deletes nothing.
\<close>

theorem retention_keep_more_than_present:
  "spec_to_delete (natural_sort example_env (matching_subdirs example_env ''/ckpt'')) 7 =
     [''/ckpt/global_step500'', ''/ckpt/global_step1000'', ''/ckpt/global_step2000''] \<and>
   removed (snd (delete_old_checkpoints example_env ''/ckpt'' 7 example_world)) = []"
proof -
  have a: "spec_to_delete (natural_sort example_env (matching_subdirs example_env ''/ckpt'')) 7 =
     [''/ckpt/global_step500'', ''/ckpt/global_step1000'', ''/ckpt/global_step2000'']"
    by (simp add: example_matching_subdirs spec_to_delete_def py_slice_to_def)
  have r: "rank example_env = 0" by (simp add: example_env_def)
  have "delete_old_checkpoints example_env ''/ckpt'' 7 example_world = (Inr (), example_world)"
    by (simp add: delete_old_checkpoints_unfold[OF r] example_all_ckpts)
  then show ?thesis using a by (simp add: example_world_def)
qed

text \<open>
  C10. The discovery predicate of the retention code accepts a listed path exactly when
  it is a directory and the substring global_step occurs somewhere in the whole path (no
  digit has to follow it). So every directory below a save directory whose own path
  contains global_step is accepted whatever its name, and with a sort that only permutes
  its input the list of candidates for deletion is exactly the set of listed directories
  whose path contains global_step.
\<close>

theorem discovery_is_unanchored_substring_search:
  "is_ckpt_dir e i = (isdir e i \<and> contains_global_step i) \<and>
   (re_search ckpt_dir_regex ''global_step'' \<noteq> None) \<and>
   (contains_global_step d \<longrightarrow>
      is_ckpt_dir e (d @ ''/'' @ name) = isdir e (d @ ''/'' @ name)) \<and>
   ((\<forall>xs. set (natural_sort e xs) = set xs) \<longrightarrow>
      set (all_ckpts e save_dir) =
        {i \<in> set (glob e (listed_dir save_dir @ ''/*'')). isdir e i \<and> contains_global_step i})"
proof (intro conjI impI)
  show a: "is_ckpt_dir e i = (isdir e i \<and> contains_global_step i)" for i
    by (simp only: is_ckpt_dir_def re_search_ckpt_dir_regex)
  have "contains_global_step ''global_step''"
    unfolding contains_global_step_def by (rule exI[of _ "[]"], rule exI[of _ "[]"]) simp
  then show "re_search ckpt_dir_regex ''global_step'' \<noteq> None"
    by (simp only: re_search_ckpt_dir_regex)
  show "is_ckpt_dir e (d @ ''/'' @ name) = isdir e (d @ ''/'' @ name)"
    if "contains_global_step d"
    using contains_global_step_prefix[OF that, of "''/'' @ name"] by (simp only: a) simp
  show "set (all_ckpts e save_dir) =
        {i \<in> set (glob e (listed_dir save_dir @ ''/*'')). isdir e i \<and> contains_global_step i}"
    if "\<forall>xs. set (natural_sort e xs) = set xs"
  proof -
    have "set (all_ckpts e save_dir) =
          set (filter (is_ckpt_dir e) (glob e (listed_dir save_dir @ ''/*'')))"
      using that by (simp only: all_ckpts_def listed_dir_def Let_def)
    also have "\<dots> = {i \<in> set (glob e (listed_dir save_dir @ ''/*'')). is_ckpt_dir e i}"
      by (rule set_filter)
    finally show ?thesis by (simp only: a)
  qed
qed

theorem discovery_is_unanchored_substring_search_witness:
  "contains_global_step ''/runs/global_step_sweep'' \<and>
   is_ckpt_dir nested_env (''/runs/global_step_sweep'' @ ''/'' @ ''logs'') \<and>
   set (all_ckpts nested_env ''/runs/global_step_sweep'') =
     {''/runs/global_step_sweep/logs'', ''/runs/global_step_sweep/global_step10''}"
proof -
  have c: "contains_global_step ''/runs/global_step_sweep''"
    unfolding contains_global_step_def
    by (rule exI[of _ "''/runs/''"], rule exI[of _ "''_sweep''"]) simp
  have ns: "\<forall>xs. set (natural_sort nested_env xs) = set xs"
    by (simp add: nested_env_def example_env_def set_natural_sort_model)
  have d: "isdir nested_env (''/runs/global_step_sweep'' @ ''/'' @ ''logs'')"
    by (simp add: nested_env_def)
  note t = discovery_is_unanchored_substring_search[of nested_env _ "''/runs/global_step_sweep''"
      "''logs''" "''/runs/global_step_sweep''"]
  from t c d have one: "is_ckpt_dir nested_env (''/runs/global_step_sweep'' @ ''/'' @ ''logs'')"
    by blast
  from t ns have "set (all_ckpts nested_env ''/runs/global_step_sweep'') =
        {i \<in> set (glob nested_env (listed_dir ''/runs/global_step_sweep'' @ ''/*'')).
           isdir nested_env i \<and> contains_global_step i}"
    by blast
  moreover have "listed_dir ''/runs/global_step_sweep'' = ''/runs/global_step_sweep''"
    by (simp add: listed_dir_def endswith_sep_def)
  moreover have "glob nested_env (''/runs/global_step_sweep'' @ ''/*'') =
      [''/runs/global_step_sweep/logs'', ''/runs/global_step_sweep/global_step10'']"
    by (simp add: nested_env_def)
  moreover have "contains_global_step ''/runs/global_step_sweep/logs''"
    using contains_global_step_prefix[OF c, of "''/logs''"] by simp
  moreover have "contains_global_step ''/runs/global_step_sweep/global_step10''"
    using contains_global_step_prefix[OF c, of "''/global_step10''"] by simp
  ultimately have two: "set (all_ckpts nested_env ''/runs/global_step_sweep'') =
     {''/runs/global_step_sweep/logs'', ''/runs/global_step_sweep/global_step10''}"
    by (auto simp: nested_env_def)
  show ?thesis using c one two by simp
qed

lemma remove_all_stops_at_error:
  assumes "\<forall>c \<in> set pre. rmtree e c = None \<or> (\<exists>m. rmtree e c = Some (FileNotFoundError m))"
    and "rmtree e c = Some x" and "\<not> is_file_not_found x"
  shows "remove_all e (pre @ c # post) w =
     (Inl x, w\<lparr>rmtree_calls := rmtree_calls w @ pre @ [c],
               removed := removed w @ filter (\<lambda>c. rmtree e c = None) pre\<rparr>)"
  by (simp del: remove_all.simps
        add: remove_all_append remove_all_tolerant[OF assms(1)]
          remove_all_other_error[OF assms(2,3)])

lemma save_checkpoint_without_retention:
  "keep_last_n_checkpoints a = None \<Longrightarrow>
     rmtree_calls (snd (save_checkpoint e a i w)) = rmtree_calls w \<and>
     removed (snd (save_checkpoint e a i w)) = removed w"
  using save_ds_checkpoint_frame[of e i a w]
  by (cases "save_ds_checkpoint e i a w")
     (auto simp: save_checkpoint_def Let_def barrier_def split: sum.splits)

lemma save_checkpoint_propagates:
  "deepspeed a \<Longrightarrow> keep_last_n_checkpoints a = Some n \<Longrightarrow>
   save_ds_checkpoint e i a w = (Inr u, w1) \<Longrightarrow>
   delete_old_checkpoints e (save a) n (barrier w1) = (Inl x, w2) \<Longrightarrow>
   save_checkpoint e a i w = (Inl x, w2)"
  by (simp add: save_checkpoint_def Let_def)

text \<open>
  C9. Retention is gated and best-effort. With no keep-last count configured,
  save_checkpoint calls rmtree on nothing and removes nothing. When the removal loop
  runs, a FileNotFoundError from rmtree is swallowed: if no other exception occurs the
  loop ends normally after having tried every directory, the missing ones included. Any
  other exception stops the loop at that directory and is the outcome of the loop, of
  delete_old_checkpoints on rank 0, and of save_checkpoint.
\<close>

theorem retention_gated_and_best_effort:
  "(keep_last_n_checkpoints a = None \<longrightarrow>
      rmtree_calls (snd (save_checkpoint e a i w)) = rmtree_calls w \<and>
      removed (snd (save_checkpoint e a i w)) = removed w) \<and>
   ((\<forall>c \<in> set cs. rmtree e c = None \<or> (\<exists>m. rmtree e c = Some (FileNotFoundError m))) \<longrightarrow>
      remove_all e cs w =
        (Inr (), w\<lparr>rmtree_calls := rmtree_calls w @ cs,
                   removed := removed w @ filter (\<lambda>c. rmtree e c = None) cs\<rparr>)) \<and>
   ((\<forall>c \<in> set pre. rmtree e c = None \<or> (\<exists>m. rmtree e c = Some (FileNotFoundError m))) \<and>
    rmtree e c = Some x \<and> \<not> is_file_not_found x \<longrightarrow>
      remove_all e (pre @ c # post) w =
        (Inl x, w\<lparr>rmtree_calls := rmtree_calls w @ pre @ [c],
                  removed := removed w @ filter (\<lambda>c. rmtree e c = None) pre\<rparr>)) \<and>
   (rank e = 0 \<and> 0 < int (length (all_ckpts e save_dir)) - n \<longrightarrow>
      delete_old_checkpoints e save_dir n w =
        remove_all e (take (nat (int (length (all_ckpts e save_dir)) - n)) (all_ckpts e save_dir))
          (print_line
             (deleting_message
                (take (nat (int (length (all_ckpts e save_dir)) - n)) (all_ckpts e save_dir))) w)) \<and>
   (deepspeed a \<and> keep_last_n_checkpoints a = Some n \<and>
    save_ds_checkpoint e i a w = (Inr (), w1) \<and>
    delete_old_checkpoints e (save a) n (barrier w1) = (Inl x, w2) \<longrightarrow>
      save_checkpoint e a i w = (Inl x, w2))"
proof (intro conjI impI)
  assume "keep_last_n_checkpoints a = None"
  then show "rmtree_calls (snd (save_checkpoint e a i w)) = rmtree_calls w"
    by (simp add: save_checkpoint_without_retention)
next
  assume "keep_last_n_checkpoints a = None"
  then show "removed (snd (save_checkpoint e a i w)) = removed w"
    by (simp add: save_checkpoint_without_retention)
next
  assume "\<forall>c \<in> set cs. rmtree e c = None \<or> (\<exists>m. rmtree e c = Some (FileNotFoundError m))"
  then show "remove_all e cs w =
        (Inr (), w\<lparr>rmtree_calls := rmtree_calls w @ cs,
                   removed := removed w @ filter (\<lambda>c. rmtree e c = None) cs\<rparr>)"
    by (rule remove_all_tolerant)
next
  assume h: "(\<forall>c \<in> set pre. rmtree e c = None \<or> (\<exists>m. rmtree e c = Some (FileNotFoundError m))) \<and>
    rmtree e c = Some x \<and> \<not> is_file_not_found x"
  show "remove_all e (pre @ c # post) w =
        (Inl x, w\<lparr>rmtree_calls := rmtree_calls w @ pre @ [c],
                  removed := removed w @ filter (\<lambda>c. rmtree e c = None) pre\<rparr>)"
    by (rule remove_all_stops_at_error) (use h in simp_all)
next
  assume "rank e = 0 \<and> 0 < int (length (all_ckpts e save_dir)) - n"
  then show "delete_old_checkpoints e save_dir n w =
        remove_all e (take (nat (int (length (all_ckpts e save_dir)) - n)) (all_ckpts e save_dir))
          (print_line
             (deleting_message
                (take (nat (int (length (all_ckpts e save_dir)) - n)) (all_ckpts e save_dir))) w)"
    by (simp add: delete_old_checkpoints_unfold)
next
  assume "deepspeed a \<and> keep_last_n_checkpoints a = Some n \<and>
    save_ds_checkpoint e i a w = (Inr (), w1) \<and>
    delete_old_checkpoints e (save a) n (barrier w1) = (Inl x, w2)"
  then show "save_checkpoint e a i w = (Inl x, w2)"
    using save_checkpoint_propagates[of a n e i w "()" w1 x w2] by simp
qed


theorem retention_gated_and_best_effort_witness:
  "rmtree_calls (snd (save_checkpoint example_env
       (example_args\<lparr>keep_last_n_checkpoints := None\<rparr>) 1000 example_world)) = [] \<and>
   fst (remove_all flaky_env [''/ckpt/global_step500'', ''/ckpt/global_step1000''] example_world)
     = Inr () \<and>
   rmtree_calls (snd (remove_all flaky_env
       [''/ckpt/global_step500'', ''/ckpt/global_step1000''] example_world))
     = [''/ckpt/global_step500'', ''/ckpt/global_step1000''] \<and>
   removed (snd (remove_all flaky_env
       [''/ckpt/global_step500'', ''/ckpt/global_step1000''] example_world))
     = [''/ckpt/global_step1000''] \<and>
   fst (remove_all flaky_env
       ([''/ckpt/global_step500''] @ ''/ckpt/global_step2000'' # [''/ckpt/global_step1000''])
       example_world)
     = Inl (OSError ''Permission denied'') \<and>
   rmtree_calls (snd (remove_all flaky_env
       ([''/ckpt/global_step500''] @ ''/ckpt/global_step2000'' # [''/ckpt/global_step1000''])
       example_world))
     = [''/ckpt/global_step500'', ''/ckpt/global_step2000'']"
proof -
  have w0: "rmtree_calls example_world = []" "removed example_world = []"
    by (simp_all add: example_world_def)
  have k: "keep_last_n_checkpoints (example_args\<lparr>keep_last_n_checkpoints := None\<rparr>) = None"
    by simp
  have a: "rmtree_calls (snd (save_checkpoint example_env
       (example_args\<lparr>keep_last_n_checkpoints := None\<rparr>) 1000 example_world)) = []"
    using retention_gated_and_best_effort[where a="example_args\<lparr>keep_last_n_checkpoints := None\<rparr>"
        and e=example_env and i=1000 and w=example_world, THEN conjunct1] k w0
    by simp
  have f1: "rmtree flaky_env ''/ckpt/global_step500'' =
              Some (FileNotFoundError ''/ckpt/global_step500'')"
    by (simp add: flaky_env_def)
  have f2: "rmtree flaky_env ''/ckpt/global_step1000'' = None"
    by (simp add: flaky_env_def)
  have f3: "rmtree flaky_env ''/ckpt/global_step2000'' = Some (OSError ''Permission denied'')"
    by (simp add: flaky_env_def)
  have b: "remove_all flaky_env [''/ckpt/global_step500'', ''/ckpt/global_step1000''] example_world =
        (Inr (), example_world\<lparr>rmtree_calls := rmtree_calls example_world @
                     [''/ckpt/global_step500'', ''/ckpt/global_step1000''],
                   removed := removed example_world @ filter (\<lambda>c. rmtree flaky_env c = None)
                     [''/ckpt/global_step500'', ''/ckpt/global_step1000'']\<rparr>)"
    using retention_gated_and_best_effort[where e=flaky_env
        and cs="[''/ckpt/global_step500'', ''/ckpt/global_step1000'']" and w=example_world,
        THEN conjunct2, THEN conjunct1] f1 f2
    by simp
  have c: "remove_all flaky_env
        ([''/ckpt/global_step500''] @ ''/ckpt/global_step2000'' # [''/ckpt/global_step1000''])
        example_world =
        (Inl (OSError ''Permission denied''),
         example_world\<lparr>rmtree_calls := rmtree_calls example_world @
                     [''/ckpt/global_step500''] @ [''/ckpt/global_step2000''],
                   removed := removed example_world @ filter (\<lambda>c. rmtree flaky_env c = None)
                     [''/ckpt/global_step500'']\<rparr>)"
    using retention_gated_and_best_effort[where e=flaky_env
        and pre="[''/ckpt/global_step500'']" and c="''/ckpt/global_step2000''"
        and x="OSError ''Permission denied''" and post="[''/ckpt/global_step1000'']"
        and w=example_world,
        THEN conjunct2, THEN conjunct2, THEN conjunct1] f1 f3
    by (simp add: is_file_not_found_def)
  show ?thesis
    by (simp only: a b c fst_conv snd_conv) (simp add: w0 f1 f2)
qed

subsection \<open>Forward-pass validator\<close>

text \<open>
  C6 (amended). Whenever do_forward_pass returns, the model's train/eval mode on exit is
  its mode on entry. When the forward pass (or moving and broadcasting the tokens) raises,
  nothing restores the mode: the model is left in evaluation mode.
\<close>

theorem forward_pass_mode_on_exit:
  "(case fst (do_forward_pass e a context_tokens w) of
      Inr r \<Rightarrow> training (snd (do_forward_pass e a context_tokens w)) = training w
    | Inl x \<Rightarrow> training (snd (do_forward_pass e a context_tokens w)) = False)"
  by (simp add: do_forward_pass_def torch_randint_def Let_def barrier_def
           split: sum.splits option.splits)

theorem forward_pass_mode_on_exit_witness:
  "training example_world \<and>
   fst (do_forward_pass example_env example_args None example_world) = Inr (7, Some 8) \<and>
   training (snd (do_forward_pass example_env example_args None example_world))"
proof -
  have t: "training example_world" by (simp add: example_world_def)
  have r: "fst (do_forward_pass example_env example_args None example_world) = Inr (7, Some 8)"
    by code_simp
  from forward_pass_mode_on_exit[of example_env example_args None example_world] r t
  have "training (snd (do_forward_pass example_env example_args None example_world))"
    by simp
  with t r show ?thesis by simp
qed

text \<open>
  C6 as stated fails on the failure path: a model in training mode whose forward pass
  raises is in evaluation mode when the exception leaves do_forward_pass.
\<close>

theorem forward_pass_failure_leaves_eval_mode:
  "training example_world \<and>
   fst (do_forward_pass failing_env example_args None example_world)
     = Inl (RuntimeError ''CUDA out of memory'') \<and>
   training (snd (do_forward_pass failing_env example_args None example_world))
     \<noteq> training example_world"
  by code_simp

text \<open>
  C5. Given that the forward pass returned on this rank: with no logits the check passes
  and nothing is compared or printed; with logits equal to the saved ones it passes and
  prints nothing; with logits not equal but close it passes, and the warning is printed
  (by data-parallel rank 0 only); with logits neither equal nor close it raises the
  assertion error, after the same warning.
\<close>

theorem forward_check_tiers:
  "do_forward_pass e a (Some tokens) w = (Inr (tokens', logits), w1) \<longrightarrow>
     (logits = None \<longrightarrow> check_forward_pass e a tokens saved_logits w = (Inr (), w1)) \<and>
     (logits = Some l \<and> saved_logits = Some cl \<and> tensor_equal_all e l cl \<longrightarrow>
        check_forward_pass e a tokens saved_logits w = (Inr (), w1)) \<and>
     (logits = Some l \<and> saved_logits = Some cl \<and> \<not> tensor_equal_all e l cl \<and>
      tensor_isclose_all e l cl \<longrightarrow>
        check_forward_pass e a tokens saved_logits w =
          (Inr (), if data_parallel_rank e = 0 then print_line forward_warning w1 else w1)) \<and>
     (logits = Some l \<and> saved_logits = Some cl \<and> \<not> tensor_equal_all e l cl \<and>
      \<not> tensor_isclose_all e l cl \<longrightarrow>
        check_forward_pass e a tokens saved_logits w =
          (Inl (AssertionError forward_assertion),
           if data_parallel_rank e = 0 then print_line forward_warning w1 else w1))"
  by (simp add: check_forward_pass_def Let_def)

lemma example_forward:
  "do_forward_pass example_env example_args (Some 7) example_world =
     (Inr (7, Some 8), example_world\<lparr>barriers := 3\<rparr>)"
  by code_simp

theorem forward_check_tiers_witness:
  "do_forward_pass example_env example_args (Some 7) example_world =
     (Inr (7, Some 8), example_world\<lparr>barriers := 3\<rparr>) \<and>
   check_forward_pass example_env example_args 7 (Some 8) example_world =
     (Inr (), example_world\<lparr>barriers := 3\<rparr>) \<and>
   check_forward_pass example_env example_args 7 (Some 9) example_world =
     (Inr (), print_line forward_warning (example_world\<lparr>barriers := 3\<rparr>)) \<and>
   check_forward_pass example_env example_args 7 (Some 20) example_world =
     (Inl (AssertionError forward_assertion),
      print_line forward_warning (example_world\<lparr>barriers := 3\<rparr>)) \<and>
   do_forward_pass (example_env\<lparr>eval_batch := (\<lambda>_. Inr None), is_last_stage := False\<rparr>)
       (example_args\<lparr>is_pipe_parallel := True\<rparr>) (Some 7) example_world =
     (Inr (7, None), example_world\<lparr>barriers := 3\<rparr>) \<and>
   check_forward_pass (example_env\<lparr>eval_batch := (\<lambda>_. Inr None), is_last_stage := False\<rparr>)
       (example_args\<lparr>is_pipe_parallel := True\<rparr>) 7 (Some 8) example_world =
     (Inr (), example_world\<lparr>barriers := 3\<rparr>)"
proof -
  note f = example_forward
  have dp: "data_parallel_rank example_env = 0" by (simp add: example_env_def)
  have eq8: "tensor_equal_all example_env 8 8" by (simp add: example_env_def)
  have ne9: "\<not> tensor_equal_all example_env 8 9" by (simp add: example_env_def)
  have cl9: "tensor_isclose_all example_env 8 9" by (simp add: example_env_def)
  have ne20: "\<not> tensor_equal_all example_env 8 20" by (simp add: example_env_def)
  have nc20: "\<not> tensor_isclose_all example_env 8 20" by (simp add: example_env_def)
  have a: "check_forward_pass example_env example_args 7 (Some 8) example_world =
     (Inr (), example_world\<lparr>barriers := 3\<rparr>)"
    using forward_check_tiers[of example_env example_args 7 example_world 7 "Some 8"
        "example_world\<lparr>barriers := 3\<rparr>" "Some 8" 8 8] f eq8
    by simp
  have b: "check_forward_pass example_env example_args 7 (Some 9) example_world =
     (Inr (), print_line forward_warning (example_world\<lparr>barriers := 3\<rparr>))"
    using forward_check_tiers[of example_env example_args 7 example_world 7 "Some 8"
        "example_world\<lparr>barriers := 3\<rparr>" "Some 9" 8 9] f ne9 cl9 dp
    by simp
  have c: "check_forward_pass example_env example_args 7 (Some 20) example_world =
     (Inl (AssertionError forward_assertion),
      print_line forward_warning (example_world\<lparr>barriers := 3\<rparr>))"
    using forward_check_tiers[of example_env example_args 7 example_world 7 "Some 8"
        "example_world\<lparr>barriers := 3\<rparr>" "Some 20" 8 20] f ne20 nc20 dp
    by simp
  have g: "do_forward_pass (example_env\<lparr>eval_batch := (\<lambda>_. Inr None), is_last_stage := False\<rparr>)
       (example_args\<lparr>is_pipe_parallel := True\<rparr>) (Some 7) example_world =
     (Inr (7, None), example_world\<lparr>barriers := 3\<rparr>)"
    by code_simp
  have d: "check_forward_pass (example_env\<lparr>eval_batch := (\<lambda>_. Inr None), is_last_stage := False\<rparr>)
       (example_args\<lparr>is_pipe_parallel := True\<rparr>) 7 (Some 8) example_world =
     (Inr (), example_world\<lparr>barriers := 3\<rparr>)"
    using forward_check_tiers[of
        "example_env\<lparr>eval_batch := (\<lambda>_. Inr None), is_last_stage := False\<rparr>"
        "example_args\<lparr>is_pipe_parallel := True\<rparr>" 7 example_world 7 None
        "example_world\<lparr>barriers := 3\<rparr>" "Some 8"] g
    by simp
  show ?thesis using f a b c g d by simp
qed

subsection \<open>Loader and writer\<close>

lemma rng_of_print_line [simp]: "rng_of (print_line m w) = rng_of w"
  by (simp add: rng_of_def print_line_def)

lemma rng_of_print_rank_0 [simp]: "rng_of (print_rank_0 e m w) = rng_of w"
  by (simp add: print_rank_0_def)

lemma rng_of_barrier [simp]: "rng_of (barrier w) = rng_of w"
  by (simp add: rng_of_def barrier_def)

lemma validate_args_rng: "rng_of (snd (validate_args e a sd w)) = rng_of w"
  by (simp add: validate_args_def split: option.splits sum.splits)

lemma check_forward_pass_rng: "rng_of (snd (check_forward_pass e a t l w)) = rng_of w"
proof (cases "do_forward_pass e a (Some t) w")
  case (Pair r w1)
  with do_forward_pass_rng[of e a t w] have "rng_of w1 = rng_of w" by simp
  with Pair show ?thesis
    by (auto simp: check_forward_pass_def Let_def split: sum.splits option.splits prod.splits)
qed

lemma validate_forward_rng: "rng_of (snd (validate_forward e a n sd w)) = rng_of w"
proof (cases "sd_checkpoint_validation sd")
  case None
  then show ?thesis by (simp add: validate_forward_def)
next
  case (Some p)
  obtain t l where p: "p = (t, l)" by (cases p)
  obtain r w1 where c: "check_forward_pass e a t l w = (r, w1)"
    by (cases "check_forward_pass e a t l w")
  with check_forward_pass_rng[of e a t l w] have "rng_of w1 = rng_of w" by simp
  with Some p c show ?thesis
    by (auto simp: validate_forward_def split: sum.splits)
qed

lemma restore_rng_skipped:
  "finetune a \<or> no_load_rng a \<Longrightarrow> restore_rng e a n sd w = (Inr (), w)"
  by (auto simp: restore_rng_def)

lemma finish_load_skipping_rng:
  assumes "finetune a \<or> no_load_rng a"
  shows "rng_of (snd (finish_load e a n sd it w)) = rng_of w"
    and "(case fst (finish_load e a n sd it w) of
            Inr it' \<Rightarrow> it' = it
          | Inl x \<Rightarrow> fst (validate_args e a sd w) = Inl x \<or>
                     fst (validate_forward e a n sd (snd (validate_args e a sd w))) = Inl x)"
    and "fst (validate_args e a sd w) = Inr () \<Longrightarrow>
         fst (validate_forward e a n sd (snd (validate_args e a sd w))) = Inr () \<Longrightarrow>
         fst (finish_load e a n sd it w) = Inr it"
proof -
  obtain r1 w1 where v1: "validate_args e a sd w = (r1, w1)" by (cases "validate_args e a sd w")
  obtain r2 w2 where v2: "validate_forward e a n sd w1 = (r2, w2)"
    by (cases "validate_forward e a n sd w1")
  have g1: "rng_of w1 = rng_of w" using validate_args_rng[of e a sd w] v1 by simp
  have g2: "rng_of w2 = rng_of w1" using validate_forward_rng[of e a n sd w1] v2 by simp
  note rs = restore_rng_skipped[OF assms]
  show "rng_of (snd (finish_load e a n sd it w)) = rng_of w"
    using v1 v2 g1 g2 by (auto simp: finish_load_def rs Let_def split: sum.splits)
  show "(case fst (finish_load e a n sd it w) of
            Inr it' \<Rightarrow> it' = it
          | Inl x \<Rightarrow> fst (validate_args e a sd w) = Inl x \<or>
                     fst (validate_forward e a n sd (snd (validate_args e a sd w))) = Inl x)"
    using v1 v2 by (auto simp: finish_load_def rs Let_def split: sum.splits)
  show "fst (validate_args e a sd w) = Inr () \<Longrightarrow>
         fst (validate_forward e a n sd (snd (validate_args e a sd w))) = Inr () \<Longrightarrow>
         fst (finish_load e a n sd it w) = Inr it"
    using v1 v2 by (auto simp: finish_load_def rs Let_def split: sum.splits)
qed

lemma load_checkpoint_found:
  "deepspeed a \<Longrightarrow>
   engine_load_checkpoint e (load a) (\<not> no_load_optim a) (\<not> no_load_optim a) = (Some n, sd) \<Longrightarrow>
   load_checkpoint e a w =
     (case resolve_iteration a n sd of
        Inl x \<Rightarrow> (Inl x, w)
      | Inr it \<Rightarrow> finish_load e a n sd it w)"
  by (simp add: load_checkpoint_def Let_def)

text \<open>
  C8. With the engine active, a load in which the engine finds no checkpoint returns
  iteration 0 and raises nothing; the only effect is the line printed by data-parallel
  rank 0.
\<close>

theorem load_without_checkpoint:
  "deepspeed a \<and>
   fst (engine_load_checkpoint e (load a) (\<not> no_load_optim a) (\<not> no_load_optim a)) = None \<longrightarrow>
     load_checkpoint e a w =
       (Inr (SInt 0),
        if data_parallel_rank e = 0 then print_line ''Unable to load checkpoint.'' w else w)"
  by (auto simp: load_checkpoint_def Let_def split: prod.splits option.splits)

theorem load_without_checkpoint_witness:
  "deepspeed example_args \<and>
   fst (engine_load_checkpoint example_env (load example_args)
         (\<not> no_load_optim example_args) (\<not> no_load_optim example_args)) = None \<and>
   load_checkpoint example_env example_args example_world =
     (Inr (SInt 0), print_line ''Unable to load checkpoint.'' example_world)"
proof -
  have d: "deepspeed example_args" by (simp add: example_args_def)
  have n: "fst (engine_load_checkpoint example_env (load example_args)
         (\<not> no_load_optim example_args) (\<not> no_load_optim example_args)) = None"
    by (simp add: example_env_def)
  have r: "data_parallel_rank example_env = 0" by (simp add: example_env_def)
  from load_without_checkpoint[of example_args example_env example_world] d n r
  have "load_checkpoint example_env example_args example_world =
     (Inr (SInt 0), print_line ''Unable to load checkpoint.'' example_world)"
    by simp
  with d n show ?thesis by simp
qed

text \<open>
  C7 (amended). With the engine active, the fine-tune flag set and a checkpoint found,
  whatever iteration and generator states the record holds: the generator states of the
  process are left as they were, the load returns 0 whenever it returns, and it does
  return 0 when the argument check and the forward-pass validation pass. Both checks run
  under fine-tune as they do otherwise, and what they raise is raised by the load.
\<close>

theorem finetune_load:
  "deepspeed a \<and> finetune a \<and>
   engine_load_checkpoint e (load a) (\<not> no_load_optim a) (\<not> no_load_optim a) = (Some n, sd) \<longrightarrow>
     rng_of (snd (load_checkpoint e a w)) = rng_of w \<and>
     (case fst (load_checkpoint e a w) of
        Inr it \<Rightarrow> it = SInt 0
      | Inl x \<Rightarrow> fst (validate_args e a sd w) = Inl x \<or>
                 fst (validate_forward e a n sd (snd (validate_args e a sd w))) = Inl x) \<and>
     (fst (validate_args e a sd w) = Inr () \<and>
      fst (validate_forward e a n sd (snd (validate_args e a sd w))) = Inr () \<longrightarrow>
        fst (load_checkpoint e a w) = Inr (SInt 0))"
proof (intro impI)
  assume h: "deepspeed a \<and> finetune a \<and>
   engine_load_checkpoint e (load a) (\<not> no_load_optim a) (\<not> no_load_optim a) = (Some n, sd)"
  then have l: "load_checkpoint e a w = finish_load e a n sd (SInt 0) w"
    by (simp add: load_checkpoint_found resolve_iteration_def)
  from h have f: "finetune a \<or> no_load_rng a" by simp
  show "rng_of (snd (load_checkpoint e a w)) = rng_of w \<and>
     (case fst (load_checkpoint e a w) of
        Inr it \<Rightarrow> it = SInt 0
      | Inl x \<Rightarrow> fst (validate_args e a sd w) = Inl x \<or>
                 fst (validate_forward e a n sd (snd (validate_args e a sd w))) = Inl x) \<and>
     (fst (validate_args e a sd w) = Inr () \<and>
      fst (validate_forward e a n sd (snd (validate_args e a sd w))) = Inr () \<longrightarrow>
        fst (load_checkpoint e a w) = Inr (SInt 0))"
    unfolding l
    using finish_load_skipping_rng[OF f, where e=e and n=n and sd=sd and it="SInt 0" and w=w]
    by simp
qed


theorem finetune_load_witness:
  "deepspeed finetune_args \<and> finetune finetune_args \<and>
   sd_iteration stored_sd = Some (SInt 5000) \<and> sd_random_rng_state stored_sd = Some 11 \<and>
   fst (load_checkpoint stored_env finetune_args example_world) = Inr (SInt 0) \<and>
   rng_of (snd (load_checkpoint stored_env finetune_args example_world)) = (1, 2, 3, 4, 5) \<and>
   fst (load_checkpoint stored_env example_args example_world) = Inr (SInt 5000) \<and>
   rng_of (snd (load_checkpoint stored_env example_args example_world)) = (11, 12, 13, 14, 15)"
proof -
  have d: "deepspeed finetune_args" "finetune finetune_args"
    by (simp_all add: finetune_args_def example_args_def)
  have s: "sd_iteration stored_sd = Some (SInt 5000)" "sd_random_rng_state stored_sd = Some 11"
    by (simp_all add: stored_sd_def)
  have g: "engine_load_checkpoint stored_env (load finetune_args)
             (\<not> no_load_optim finetune_args) (\<not> no_load_optim finetune_args) =
           (Some ''/ckpt/global_step5000'', stored_sd)"
    by (simp add: stored_env_def)
  have v1: "fst (validate_args stored_env finetune_args stored_sd example_world) = Inr ()"
    by code_simp
  have v2: "fst (validate_forward stored_env finetune_args ''/ckpt/global_step5000'' stored_sd
                  (snd (validate_args stored_env finetune_args stored_sd example_world))) = Inr ()"
    by (simp add: validate_forward_def finetune_args_def example_args_def)
  have w0: "rng_of example_world = (1, 2, 3, 4, 5)"
    by (simp add: rng_of_def example_world_def)
  from finetune_load[of finetune_args stored_env "''/ckpt/global_step5000''" stored_sd
      example_world] d g v1 v2 w0
  have a: "fst (load_checkpoint stored_env finetune_args example_world) = Inr (SInt 0) \<and>
      rng_of (snd (load_checkpoint stored_env finetune_args example_world)) = (1, 2, 3, 4, 5)"
    by simp
  have b: "fst (load_checkpoint stored_env example_args example_world) = Inr (SInt 5000)"
    by code_simp
  have c: "rng_of (snd (load_checkpoint stored_env example_args example_world)) = (11, 12, 13, 14, 15)"
    by code_simp
  show ?thesis using d s a b c by simp
qed

text \<open>
  C7 as stated fails: a fine-tune load that finds a checkpoint saved with 12 layers under
  a configuration with 24 layers raises the argument mismatch instead of returning 0.
\<close>

theorem finetune_load_mismatch_raises:
  "deepspeed (deeper_args\<lparr>finetune := True\<rparr>) \<and> finetune (deeper_args\<lparr>finetune := True\<rparr>) \<and>
   engine_load_checkpoint stored_env (load (deeper_args\<lparr>finetune := True\<rparr>)) True True =
     (Some ''/ckpt/global_step5000'', stored_sd) \<and>
   fst (load_checkpoint stored_env (deeper_args\<lparr>finetune := True\<rparr>) example_world) =
     Inl (AssertionError layers_message)"
  by code_simp

lemma resolve_iteration_not_finetune:
  "\<not> finetune a \<Longrightarrow>
   resolve_iteration a n sd =
     (if truthy (dict_get (sd_iteration sd)) then Inr (dict_get (sd_iteration sd))
      else if dict_get (sd_total_iters sd) = SNone then
        Inl (ValueError (''Unable to load iteration from checkpoint '' @ n @ '', exiting''))
      else Inr (dict_get (sd_total_iters sd)))"
  by (cases "dict_get (sd_iteration sd)") (simp_all add: resolve_iteration_def py_or_def Let_def)

text \<open>
  C1, evaluated on the code. A record whose iteration field exists and holds 0 makes a
  non-fine-tune load raise the missing-iteration error; so does the record that
  save_ds_checkpoint itself writes at iteration 0. With a total_iters field beside it,
  the load returns that field instead of the stored iteration 0.
\<close>

theorem stored_iteration_zero_is_rejected:
  "\<not> finetune example_args \<and>
   fst (engine_load_checkpoint zero_env ''/ckpt'' True True) = Some ''/ckpt/global_step0'' \<and>
   sd_iteration (snd (engine_load_checkpoint zero_env ''/ckpt'' True True)) = Some (SInt 0) \<and>
   fst (load_checkpoint zero_env example_args example_world) =
     Inl (ValueError ''Unable to load iteration from checkpoint /ckpt/global_step0, exiting'') \<and>
   sd_iteration (initial_sd 0 example_args :: nat state_dict) = Some (SInt 0) \<and>
   resolve_iteration example_args ''/ckpt/global_step0'' (initial_sd 0 example_args :: nat state_dict) =
     Inl (ValueError ''Unable to load iteration from checkpoint /ckpt/global_step0, exiting'') \<and>
   resolve_iteration example_args ''/ckpt/global_step0''
       (stored_sd\<lparr>sd_iteration := Some (SInt 0), sd_total_iters := Some (SInt 7)\<rparr>) =
     Inr (SInt 7)"
  by code_simp

lemma check_items_iff: "(check_items a items = Inr ()) = list_all (arg_agrees a) items"
proof (induction items)
  case Nil
  then show ?case by simp
next
  case (Cons p items)
  obtain name v where p: "p = (name, v)" by (cases p)
  show ?case using Cons.IH by (simp add: p arg_agrees_def split: option.splits)
qed

lemma check_items_first_mismatch:
  "list_all (arg_agrees a) pre \<Longrightarrow> getattr a name = Some args_value \<Longrightarrow>
   \<not> py_eq v args_value \<Longrightarrow>
   check_items a (pre @ (name, v) # post) = Inl (AssertionError (error_message name v args_value))"
proof (induction pre)
  case Nil
  then show ?case by simp
next
  case (Cons p pre)
  obtain n' v' where p: "p = (n', v')" by (cases p)
  from Cons.prems(1) have "arg_agrees a (n', v')" and "list_all (arg_agrees a) pre"
    by (simp_all add: p)
  then show ?case using Cons by (simp add: p arg_agrees_def split: option.splits)
qed

lemma checkpoint_args_agree: "list_all (arg_agrees a) (checkpoint_args_of a)"
  by (simp add: checkpoint_args_of_def arg_agrees_def getattr_def)

lemma save_ds_checkpoint_record:
  assumes "save_ds_checkpoint e i a w = (Inr u, w1)"
  shows "\<exists>sd. saved w1 = saved w @ [(save a, sd)] \<and>
              sd_args sd = Some (ArgsDict (checkpoint_args_of a)) \<and>
              sd_iteration sd = Some (SInt i)"
proof (cases "checkpoint_validation_with_forward_pass a")
  case False
  with assms show ?thesis
    by (auto simp: save_ds_checkpoint_def Let_def initial_sd_def with_rng_states_def)
next
  case True
  obtain r w2 where d: "do_forward_pass e a None w = (r, w2)"
    by (cases "do_forward_pass e a None w")
  with do_forward_pass_frame[of e a None w] have s: "saved w2 = saved w" by simp
  from assms True d s show ?thesis
    by (auto simp: save_ds_checkpoint_def Let_def initial_sd_def with_rng_states_def
             split: sum.splits)
qed

text \<open>
  C4. The argument check passes exactly when every stored field has a same-named field
  in the current configuration that equals it. The first stored field that differs from
  the configuration raises an assertion error whose message is the field's name, the
  checkpoint's value and the current value. In load_checkpoint a record with arguments
  is checked this way and a failure is the outcome of the load; a record without
  arguments skips the check, prints the could-not-find line (rank 0) and raises nothing.
  The arguments that save_ds_checkpoint stores for a configuration pass the check under
  that same configuration.
\<close>

theorem architecture_check:
  "((check_checkpoint_args a (ArgsDict items) = Inr ()) = list_all (arg_agrees a) items) \<and>
   (list_all (arg_agrees a) pre \<and> getattr a name = Some args_value \<and>
    \<not> py_eq v args_value \<longrightarrow>
      check_checkpoint_args a (ArgsDict (pre @ (name, v) # post)) =
        Inl (AssertionError
          (name @ '' value from checkpoint ('' @ py_str v @
           '') is not equal to the currently set argument value ('' @ py_str args_value
           @ '').''))) \<and>
   (sd_args sd = Some checkpoint_args \<and> check_checkpoint_args a checkpoint_args = Inl x \<longrightarrow>
      validate_args e a sd w = (Inl x, w)) \<and>
   (sd_args sd = Some checkpoint_args \<and> check_checkpoint_args a checkpoint_args = Inr () \<longrightarrow>
      validate_args e a sd w =
        (Inr (), print_rank_0 e
           '' > validated currently set args with arguments in the checkpoint ...'' w)) \<and>
   (sd_args sd = None \<longrightarrow>
      validate_args e a sd w =
        (Inr (), print_rank_0 e
           '' > could not find arguments in the checkpoint for validation...'' w)) \<and>
   (deepspeed a \<and>
    engine_load_checkpoint e (load a) (\<not> no_load_optim a) (\<not> no_load_optim a) = (Some n, sd) \<and>
    resolve_iteration a n sd = Inr it \<and> validate_args e a sd w = (Inl x, w) \<longrightarrow>
      load_checkpoint e a w = (Inl x, w)) \<and>
   check_checkpoint_args a (ArgsDict (checkpoint_args_of a)) = Inr () \<and>
   (save_ds_checkpoint e i a w = (Inr (), w1) \<longrightarrow>
      (\<exists>sd'. saved w1 = saved w @ [(save a, sd')] \<and>
             sd_args sd' = Some (ArgsDict (checkpoint_args_of a)) \<and>
             validate_args e a sd' w1 =
               (Inr (), print_rank_0 e
                  '' > validated currently set args with arguments in the checkpoint ...'' w1)))"
proof (intro conjI impI)
  show "(check_checkpoint_args a (ArgsDict items) = Inr ()) = list_all (arg_agrees a) items"
    by (simp add: check_checkpoint_args_def check_items_iff)
next
  assume "list_all (arg_agrees a) pre \<and> getattr a name = Some args_value \<and>
    \<not> py_eq v args_value"
  then have "check_items a (pre @ (name, v) # post) =
             Inl (AssertionError (error_message name v args_value))"
    by (simp add: check_items_first_mismatch)
  then show "check_checkpoint_args a (ArgsDict (pre @ (name, v) # post)) =
        Inl (AssertionError
          (name @ '' value from checkpoint ('' @ py_str v @
           '') is not equal to the currently set argument value ('' @ py_str args_value
           @ '').''))"
    by (simp only: check_checkpoint_args_def error_message_def args_value.case)
next
  assume "sd_args sd = Some checkpoint_args \<and> check_checkpoint_args a checkpoint_args = Inl x"
  then show "validate_args e a sd w = (Inl x, w)" by (simp add: validate_args_def)
next
  assume "sd_args sd = Some checkpoint_args \<and> check_checkpoint_args a checkpoint_args = Inr ()"
  then show "validate_args e a sd w =
        (Inr (), print_rank_0 e
           '' > validated currently set args with arguments in the checkpoint ...'' w)"
    by (simp add: validate_args_def)
next
  assume "sd_args sd = None"
  then show "validate_args e a sd w =
        (Inr (), print_rank_0 e
           '' > could not find arguments in the checkpoint for validation...'' w)"
    by (simp add: validate_args_def)
next
  assume "deepspeed a \<and>
    engine_load_checkpoint e (load a) (\<not> no_load_optim a) (\<not> no_load_optim a) = (Some n, sd) \<and>
    resolve_iteration a n sd = Inr it \<and> validate_args e a sd w = (Inl x, w)"
  then show "load_checkpoint e a w = (Inl x, w)"
    by (simp add: load_checkpoint_def Let_def finish_load_def)
next
  show ok: "check_checkpoint_args a (ArgsDict (checkpoint_args_of a)) = Inr ()"
    by (simp add: check_checkpoint_args_def check_items_iff checkpoint_args_agree)
  assume "save_ds_checkpoint e i a w = (Inr (), w1)"
  then obtain sd' where s: "saved w1 = saved w @ [(save a, sd')]"
      "sd_args sd' = Some (ArgsDict (checkpoint_args_of a))"
    using save_ds_checkpoint_record by blast
  from s(2) ok have "validate_args e a sd' w1 =
               (Inr (), print_rank_0 e
                  '' > validated currently set args with arguments in the checkpoint ...'' w1)"
    by (simp add: validate_args_def)
  with s show "\<exists>sd'. saved w1 = saved w @ [(save a, sd')] \<and>
             sd_args sd' = Some (ArgsDict (checkpoint_args_of a)) \<and>
             validate_args e a sd' w1 =
               (Inr (), print_rank_0 e
                  '' > validated currently set args with arguments in the checkpoint ...'' w1)"
    by (intro exI[of _ sd']) simp
qed


theorem architecture_check_witness:
  "check_checkpoint_args example_args (ArgsDict (checkpoint_args_of example_args)) = Inr () \<and>
   list_all (arg_agrees example_args) (checkpoint_args_of example_args) \<and>
   check_checkpoint_args deeper_args (ArgsDict (checkpoint_args_of example_args)) =
     Inl (AssertionError layers_message) \<and>
   load_checkpoint stored_env deeper_args example_world =
     (Inl (AssertionError layers_message), example_world) \<and>
   validate_args example_env example_args empty_sd example_world =
     (Inr (), print_line '' > could not find arguments in the checkpoint for validation...''
                example_world)"
proof -
  note t = architecture_check
  have a: "check_checkpoint_args example_args (ArgsDict (checkpoint_args_of example_args)) = Inr ()"
    using t[where a=example_args, THEN conjunct2, THEN conjunct2, THEN conjunct2,
        THEN conjunct2, THEN conjunct2, THEN conjunct2, THEN conjunct1] .
  have b: "list_all (arg_agrees example_args) (checkpoint_args_of example_args)"
    using t[where a=example_args and items="checkpoint_args_of example_args", THEN conjunct1] a
    by simp
  have split: "checkpoint_args_of example_args =
                 [] @ (''num_layers'', SInt 12) # tl (checkpoint_args_of example_args)"
    by (simp add: checkpoint_args_of_def example_args_def)
  have g: "getattr deeper_args ''num_layers'' = Some (SInt 24)"
    by (simp add: getattr_def deeper_args_def)
  have m: "''num_layers'' @ '' value from checkpoint ('' @ py_str (SInt 12) @
           '') is not equal to the currently set argument value ('' @ py_str (SInt 24)
           @ '').'' = layers_message"
    by code_simp
  have c: "check_checkpoint_args deeper_args (ArgsDict (checkpoint_args_of example_args)) =
     Inl (AssertionError layers_message)"
    using t[where a=deeper_args and pre="[]" and name="''num_layers''" and v="SInt 12"
        and args_value="SInt 24" and post="tl (checkpoint_args_of example_args)",
        THEN conjunct2, THEN conjunct1] g split m
    by simp
  have sa: "sd_args stored_sd = Some (ArgsDict (checkpoint_args_of example_args))"
    by (simp add: stored_sd_def)
  have v: "validate_args stored_env deeper_args stored_sd example_world =
           (Inl (AssertionError layers_message), example_world)"
    using t[where a=deeper_args and sd=stored_sd
        and checkpoint_args="ArgsDict (checkpoint_args_of example_args)"
        and x="AssertionError layers_message" and e=stored_env and w=example_world,
        THEN conjunct2, THEN conjunct2, THEN conjunct1] sa c
    by simp
  have ds: "deepspeed deeper_args" by (simp add: deeper_args_def example_args_def)
  have en: "engine_load_checkpoint stored_env (load deeper_args)
              (\<not> no_load_optim deeper_args) (\<not> no_load_optim deeper_args) =
            (Some ''/ckpt/global_step5000'', stored_sd)"
    by (simp add: stored_env_def)
  have ri: "resolve_iteration deeper_args ''/ckpt/global_step5000'' stored_sd = Inr (SInt 5000)"
    by code_simp
  have d: "load_checkpoint stored_env deeper_args example_world =
     (Inl (AssertionError layers_message), example_world)"
    using t[where a=deeper_args and e=stored_env and n="''/ckpt/global_step5000''"
        and sd=stored_sd and it="SInt 5000" and x="AssertionError layers_message"
        and w=example_world,
        THEN conjunct2, THEN conjunct2, THEN conjunct2, THEN conjunct2, THEN conjunct2,
        THEN conjunct1] ds en ri v
    by simp
  have na: "sd_args empty_sd = None" by (simp add: empty_sd_def)
  have r0: "rank example_env = 0" by (simp add: example_env_def)
  have f: "validate_args example_env example_args empty_sd example_world =
     (Inr (), print_line '' > could not find arguments in the checkpoint for validation...''
                example_world)"
    using t[where sd=empty_sd and e=example_env and a=example_args and w=example_world,
        THEN conjunct2, THEN conjunct2, THEN conjunct2, THEN conjunct2, THEN conjunct1] na r0
    by (simp add: print_rank_0_def)
  show ?thesis using a b c d f by simp
qed

end
